theory Spec2Isabelle
  imports Complex_Main "HOL-Library.Word"
begin

unbundle bit_operations_syntax

section \<open>Machine types and errors\<close>

type_synonym u32 = "32 word"
type_synonym u64 = "64 word"

text \<open>
  Every \<^verbatim>\<open>throwRuntimeError(cond, fmt, ...)\<close> of the source throws a
  \<^verbatim>\<open>std::runtime_error\<close> when \<^verbatim>\<open>cond\<close> is false: the recoverable validation
  failure, carried here with its format string.  \<^verbatim>\<open>OPTIX_CHECK\<close> and
  \<^verbatim>\<open>CUDADRV_CHECK\<close> throw when the backend call does not succeed.  Dereferencing a
  pointer to an object that does not exist, or indexing a vector out of range, has no
  defined behaviour in C++; the model makes these an error value of their own, and so it
  does with a recursion that does not end.  Assertions (\<^verbatim>\<open>optixuAssert\<close>) are compiled
  out of a release build and are not modelled.
\<close>

datatype error = RuntimeError string | BackendError | Undefined | Diverges

section \<open>SizeAlign\<close>

record SizeAlign =
  size_sa :: u32
  alignment :: u32

text \<open>\<^verbatim>\<open>constexpr SizeAlign() : size(0), alignment(1)\<close>\<close>

definition SizeAlign_default :: SizeAlign where
  "SizeAlign_default = \<lparr>size_sa = 0, alignment = 1\<rparr>"

text \<open>
  \<^verbatim>\<open>SizeAlign::add(sa, offset)\<close>: returns the updated accumulator and the value
  written through \<^verbatim>\<open>offset\<close>.
\<close>

definition SizeAlign_add :: "SizeAlign \<Rightarrow> SizeAlign \<Rightarrow> SizeAlign \<times> u32" where
  "SizeAlign_add this sa =
     (let mask = alignment sa - 1;
          alignment' = max (alignment this) (alignment sa);
          size' = (size_sa this + mask) AND NOT mask;
          offset = size'
      in (\<lparr>size_sa = size' + size_sa sa, alignment = alignment'\<rparr>, offset))"

text \<open>\<^verbatim>\<open>operator+=\<close> is \<^verbatim>\<open>add(sa, nullptr)\<close>.\<close>

definition SizeAlign_plus :: "SizeAlign \<Rightarrow> SizeAlign \<Rightarrow> SizeAlign" where
  "SizeAlign_plus this sa = fst (SizeAlign_add this sa)"

definition SizeAlign_alignUp :: "SizeAlign \<Rightarrow> SizeAlign" where
  "SizeAlign_alignUp this =
     (let mask = alignment this - 1
      in this\<lparr>size_sa := (size_sa this + mask) AND NOT mask\<rparr>)"

definition SizeAlign_max :: "SizeAlign \<Rightarrow> SizeAlign \<Rightarrow> SizeAlign" where
  "SizeAlign_max sa0 sa1 =
     \<lparr>size_sa = max (size_sa sa0) (size_sa sa1),
      alignment = max (alignment sa0) (alignment sa1)\<rparr>"

text \<open>
  Appending a sequence of items with \<^verbatim>\<open>add\<close>, collecting the offset returned for
  each item.
\<close>

fun addAll :: "SizeAlign \<Rightarrow> SizeAlign list \<Rightarrow> SizeAlign \<times> u32 list" where
  "addAll s [] = (s, [])"
| "addAll s (x # xs) =
     (let (s', off) = SizeAlign_add s x;
          (s'', offs) = addAll s' xs
      in (s'', off # offs))"


section \<open>Constants of the OptiX SDK\<close>

text \<open>
  The SDK headers are not part of the repository.  The values below are the ones of
  \<^verbatim>\<open>optix_7_types.h\<close>; no theorem depends on them beyond what is stated.
\<close>

definition OPTIX_SBT_RECORD_HEADER_SIZE :: u32 where
  "OPTIX_SBT_RECORD_HEADER_SIZE = 32"

definition OPTIX_SBT_RECORD_ALIGNMENT :: u32 where
  "OPTIX_SBT_RECORD_ALIGNMENT = 16"

definition OPTIX_BUILD_FLAG_ALLOW_UPDATE :: u32 where
  "OPTIX_BUILD_FLAG_ALLOW_UPDATE = 1"

definition OPTIX_BUILD_FLAG_ALLOW_COMPACTION :: u32 where
  "OPTIX_BUILD_FLAG_ALLOW_COMPACTION = 2"

definition OPTIX_BUILD_FLAG_PREFER_FAST_TRACE :: u32 where
  "OPTIX_BUILD_FLAG_PREFER_FAST_TRACE = 4"

definition OPTIX_BUILD_FLAG_PREFER_FAST_BUILD :: u32 where
  "OPTIX_BUILD_FLAG_PREFER_FAST_BUILD = 8"

definition OPTIX_BUILD_FLAG_ALLOW_RANDOM_VERTEX_ACCESS :: u32 where
  "OPTIX_BUILD_FLAG_ALLOW_RANDOM_VERTEX_ACCESS = 16"

definition OPTIX_INDICES_FORMAT_NONE :: u32 where
  "OPTIX_INDICES_FORMAT_NONE = 0"

definition OPTIX_TRANSFORM_FORMAT_NONE :: u32 where
  "OPTIX_TRANSFORM_FORMAT_NONE = 0"

definition OPTIX_TRANSFORM_FORMAT_MATRIX_FLOAT12 :: u32 where
  "OPTIX_TRANSFORM_FORMAT_MATRIX_FLOAT12 = 0x21E1"

definition OPTIX_GEOMETRY_FLAG_NONE :: u32 where
  "OPTIX_GEOMETRY_FLAG_NONE = 0"

datatype OptixBuildOperation = OPTIX_BUILD_OPERATION_ZERO | OPTIX_BUILD_OPERATION_BUILD
  | OPTIX_BUILD_OPERATION_UPDATE

definition s_maxMaterialUserDataSize :: u32 where
  "s_maxMaterialUserDataSize = 512"

definition s_maxGeometryInstanceUserDataSize :: u32 where
  "s_maxGeometryInstanceUserDataSize = 512"

definition s_maxGASUserDataSize :: u32 where
  "s_maxGASUserDataSize = 512"

section \<open>Floating-point values\<close>

text \<open>
  A \<^verbatim>\<open>float\<close> is a finite value, an infinity or a NaN.  Finite results are exact
  reals: rounding, overflow to infinity and the sign of zero are not modelled.  Division
  by zero, the arithmetic of infinities and NaN, and comparison follow IEEE 754.  On the
  values 0 and 1, which the theorems below evaluate, IEEE arithmetic is exact.
\<close>

datatype float32 = Finite real | PInf | NInf | NaN

fun fl_neg :: "float32 \<Rightarrow> float32" where
  "fl_neg (Finite a) = Finite (- a)"
| "fl_neg PInf = NInf"
| "fl_neg NInf = PInf"
| "fl_neg NaN = NaN"

fun fl_inf :: "bool \<Rightarrow> float32" where
  "fl_inf positive = (if positive then PInf else NInf)"

fun fl_mul :: "float32 \<Rightarrow> float32 \<Rightarrow> float32" where
  "fl_mul (Finite a) (Finite b) = Finite (a * b)"
| "fl_mul NaN _ = NaN"
| "fl_mul _ NaN = NaN"
| "fl_mul (Finite a) PInf = (if a = 0 then NaN else fl_inf (0 < a))"
| "fl_mul (Finite a) NInf = (if a = 0 then NaN else fl_inf (a < 0))"
| "fl_mul PInf (Finite b) = (if b = 0 then NaN else fl_inf (0 < b))"
| "fl_mul NInf (Finite b) = (if b = 0 then NaN else fl_inf (b < 0))"
| "fl_mul PInf PInf = PInf"
| "fl_mul PInf NInf = NInf"
| "fl_mul NInf PInf = NInf"
| "fl_mul NInf NInf = PInf"

fun fl_add :: "float32 \<Rightarrow> float32 \<Rightarrow> float32" where
  "fl_add (Finite a) (Finite b) = Finite (a + b)"
| "fl_add NaN _ = NaN"
| "fl_add _ NaN = NaN"
| "fl_add PInf NInf = NaN"
| "fl_add NInf PInf = NaN"
| "fl_add PInf _ = PInf"
| "fl_add NInf _ = NInf"
| "fl_add _ PInf = PInf"
| "fl_add _ NInf = NInf"

definition fl_sub :: "float32 \<Rightarrow> float32 \<Rightarrow> float32" where
  "fl_sub a b = fl_add a (fl_neg b)"

fun fl_div :: "float32 \<Rightarrow> float32 \<Rightarrow> float32" where
  "fl_div (Finite a) (Finite b) =
     (if b = 0 then (if a = 0 then NaN else fl_inf (0 < a)) else Finite (a / b))"
| "fl_div NaN _ = NaN"
| "fl_div _ NaN = NaN"
| "fl_div (Finite a) PInf = Finite 0"
| "fl_div (Finite a) NInf = Finite 0"
| "fl_div PInf (Finite b) = fl_inf (0 \<le> b)"
| "fl_div NInf (Finite b) = fl_inf (b < 0)"
| "fl_div PInf PInf = NaN"
| "fl_div PInf NInf = NaN"
| "fl_div NInf PInf = NaN"
| "fl_div NInf NInf = NaN"

text \<open>The operator \<^verbatim>\<open>!=\<close>: true when an operand is NaN.\<close>

fun fl_ne :: "float32 \<Rightarrow> float32 \<Rightarrow> bool" where
  "fl_ne NaN _ = True"
| "fl_ne _ NaN = True"
| "fl_ne a b = (a \<noteq> b)"

section \<open>Buffer views\<close>

text \<open>
  Modelled from the spec: the class \<^verbatim>\<open>BufferView\<close> is declared in a header that
  is not part of the sources; the spec describes it as a tuple of device pointer, element
  stride, element count and validity.  The size in bytes is kept as a field of its own,
  so nothing is assumed on how it relates to the other fields.
\<close>

record BufferView =
  getCUdeviceptr :: u64
  numElements :: u64
  stride :: u32
  sizeInBytes :: u64
  isValid :: bool

definition BufferView_default :: BufferView where
  "BufferView_default =
     \<lparr>getCUdeviceptr = 0, numElements = 0, stride = 0, sizeInBytes = 0, isValid = False\<rparr>"

section \<open>Material\<close>

text \<open>
  \<^verbatim>\<open>programs\<close> maps a (pipeline, ray type) key to a hit group.  The bytes of the
  user data are not modelled, only their size and alignment.
\<close>

record Material =
  mat_userDataSizeAlign :: SizeAlign
  mat_programs :: "(nat \<times> u32) \<rightharpoonup> nat"

section \<open>Build inputs\<close>

text \<open>
  \<^verbatim>\<open>OptixBuildInput\<close> is a type tag and a union.  A pointer into the arrays owned
  by a geometry instance is the address of that instance; \<open>None\<close> is the null pointer.
\<close>

record OptixBuildInputTriangleArray =
  tri_vertexBuffers :: "nat option"
  tri_numVertices :: u32
  tri_vertexFormat :: u32
  tri_vertexStrideInBytes :: u32
  tri_indexBuffer :: u64
  tri_numIndexTriplets :: u32
  tri_indexFormat :: u32
  tri_indexStrideInBytes :: u32
  tri_preTransform :: u64
  tri_flags :: "nat option"
  tri_numSbtRecords :: u32
  tri_sbtIndexOffsetBuffer :: u64
  tri_sbtIndexOffsetSizeInBytes :: u32
  tri_sbtIndexOffsetStrideInBytes :: u32
  tri_primitiveIndexOffset :: u32
  tri_transformFormat :: u32

record OptixBuildInputCustomPrimitiveArray =
  cust_aabbBuffers :: "nat option"
  cust_numPrimitives :: u32
  cust_strideInBytes :: u32
  cust_flags :: "nat option"
  cust_numSbtRecords :: u32
  cust_sbtIndexOffsetBuffer :: u64
  cust_sbtIndexOffsetSizeInBytes :: u32
  cust_sbtIndexOffsetStrideInBytes :: u32
  cust_primitiveIndexOffset :: u32

record OptixBuildInputInstanceArray =
  inst_instances :: u64
  inst_numInstances :: u32

datatype OptixBuildInput =
    BuildInput_zero
  | BuildInput_triangles OptixBuildInputTriangleArray
  | BuildInput_custom OptixBuildInputCustomPrimitiveArray
  | BuildInput_instances OptixBuildInputInstanceArray

definition triangleArray_zero :: OptixBuildInputTriangleArray where
  "triangleArray_zero =
     \<lparr>tri_vertexBuffers = None, tri_numVertices = 0, tri_vertexFormat = 0,
      tri_vertexStrideInBytes = 0, tri_indexBuffer = 0, tri_numIndexTriplets = 0,
      tri_indexFormat = 0, tri_indexStrideInBytes = 0, tri_preTransform = 0,
      tri_flags = None, tri_numSbtRecords = 0, tri_sbtIndexOffsetBuffer = 0,
      tri_sbtIndexOffsetSizeInBytes = 0, tri_sbtIndexOffsetStrideInBytes = 0,
      tri_primitiveIndexOffset = 0, tri_transformFormat = 0\<rparr>"

definition customPrimitiveArray_zero :: OptixBuildInputCustomPrimitiveArray where
  "customPrimitiveArray_zero =
     \<lparr>cust_aabbBuffers = None, cust_numPrimitives = 0, cust_strideInBytes = 0,
      cust_flags = None, cust_numSbtRecords = 0, cust_sbtIndexOffsetBuffer = 0,
      cust_sbtIndexOffsetSizeInBytes = 0, cust_sbtIndexOffsetStrideInBytes = 0,
      cust_primitiveIndexOffset = 0\<rparr>"


section \<open>GeometryInstance\<close>

text \<open>
  \<^verbatim>\<open>materials[materialSlot][materialSetIndex]\<close> holds pointers to materials; \<open>None\<close>
  is \<^verbatim>\<open>nullptr\<close>.  The vertex (or AABB) buffers and the array of their device
  pointers have one entry per motion step.
\<close>

record GeometryInstance =
  gi_scene :: nat
  gi_userDataSizeAlign :: SizeAlign
  gi_numMotionSteps :: u32
  gi_vertexBuffers :: "BufferView list"
  gi_vertexBufferArray :: "u64 list"
  gi_primitiveAabbBuffers :: "BufferView list"
  gi_primitiveAabbBufferArray :: "u64 list"
  gi_triangleBuffer :: BufferView
  gi_vertexFormat :: u32
  gi_indexFormat :: u32
  gi_primitiveIndexOffset :: u32
  gi_materialIndexOffsetSize :: u32
  gi_materialIndexOffsetBuffer :: BufferView
  gi_buildInputFlags :: "u32 list"
  gi_materials :: "nat option list list"
  gi_forCustomPrimitives :: bool

text \<open>
  The loop over the motion steps shared by \<^verbatim>\<open>fillBuildInput\<close> and
  \<^verbatim>\<open>updateBuildInput\<close>, for the three messages of the caller: it stores the device
  pointer of step \<open>i\<close> first and validates the buffer afterwards.
\<close>

fun motionStepLoop ::
  "string \<times> string \<times> string \<Rightarrow> BufferView list \<Rightarrow> u32 \<Rightarrow> u32 \<Rightarrow> nat list \<Rightarrow> u64 list
     \<Rightarrow> error option \<times> u64 list" where
  "motionStepLoop msgs bufs numElems strd [] arr = (None, arr)"
| "motionStepLoop msgs bufs numElems strd (i # rest) arr =
     (if \<not> (i < length bufs \<and> i < length arr) then (Some Undefined, arr)
      else
        let arr' = arr[i := getCUdeviceptr (bufs ! i)] in
        if \<not> isValid (bufs ! i) then (Some (RuntimeError (fst msgs)), arr')
        else if numElements (bufs ! i) \<noteq> ucast numElems
          then (Some (RuntimeError (fst (snd msgs))), arr')
        else if stride (bufs ! i) \<noteq> strd
          then (Some (RuntimeError (snd (snd msgs))), arr')
        else motionStepLoop msgs bufs numElems strd rest arr')"

definition aabbMessages :: "string \<times> string \<times> string" where
  "aabbMessages =
     (''AABB buffer for motion step %u is not set.'',
      ''Num elements for motion step %u doesn't match that of 0.'',
      ''Stride for motion step %u doesn't match that of 0.'')"

definition vertexMessages :: "string \<times> string \<times> string" where
  "vertexMessages =
     (''Vertex buffer for motion step %u is not set.'',
      ''Num elements for motion step %u doesn't match that of 0.'',
      ''Vertex stride for motion step %u doesn't match that of 0.'')"

text \<open>
  \<^verbatim>\<open>GeometryInstance::Priv::fillBuildInput(input, preTransform)\<close> for the instance at
  address \<open>self\<close>.  The result is the error thrown (if any), the instance with its pointer
  array as written so far, and \<^verbatim>\<open>*input\<close> as written so far.
\<close>

definition GeometryInstance_fillBuildInput ::
  "nat \<Rightarrow> GeometryInstance \<Rightarrow> u64 \<Rightarrow> error option \<times> GeometryInstance \<times> OptixBuildInput" where
  "GeometryInstance_fillBuildInput self gi preTransform =
     (if gi_forCustomPrimitives gi then
        (case gi_primitiveAabbBuffers gi of
           [] \<Rightarrow> (Some Undefined, gi, BuildInput_custom customPrimitiveArray_zero)
         | b0 # _ \<Rightarrow>
            let strd = stride b0;
                numElems = (ucast (numElements b0) :: u32);
                (err, arr) = motionStepLoop aabbMessages (gi_primitiveAabbBuffers gi)
                               numElems strd [0 ..< unat (gi_numMotionSteps gi)]
                               (gi_primitiveAabbBufferArray gi);
                gi' = gi\<lparr>gi_primitiveAabbBufferArray := arr\<rparr>
            in (case err of
                  Some e \<Rightarrow> (Some e, gi', BuildInput_custom customPrimitiveArray_zero)
                | None \<Rightarrow>
                   let numSbtRecords = (of_nat (length (gi_buildInputFlags gi)) :: u32);
                       many = (1 < numSbtRecords)
                   in (None, gi', BuildInput_custom
                        \<lparr>cust_aabbBuffers = Some self,
                         cust_numPrimitives = numElems,
                         cust_strideInBytes = strd,
                         cust_flags = Some self,
                         cust_numSbtRecords = numSbtRecords,
                         cust_sbtIndexOffsetBuffer =
                           (if many then getCUdeviceptr (gi_materialIndexOffsetBuffer gi) else 0),
                         cust_sbtIndexOffsetSizeInBytes =
                           (if many then gi_materialIndexOffsetSize gi else 0),
                         cust_sbtIndexOffsetStrideInBytes =
                           (if many then stride (gi_materialIndexOffsetBuffer gi) else 0),
                         cust_primitiveIndexOffset = gi_primitiveIndexOffset gi\<rparr>)))
      else if (gi_indexFormat gi \<noteq> OPTIX_INDICES_FORMAT_NONE) \<noteq> isValid (gi_triangleBuffer gi)
        then (Some (RuntimeError ''Triangle buffer must be provided if using a index format other than None, otherwise must not be provided.''),
              gi, BuildInput_zero)
      else
        (case gi_vertexBuffers gi of
           [] \<Rightarrow> (Some Undefined, gi, BuildInput_triangles triangleArray_zero)
         | b0 # _ \<Rightarrow>
            let vertexStride = stride b0;
                numVertices = (ucast (numElements b0) :: u32);
                (err, arr) = motionStepLoop vertexMessages (gi_vertexBuffers gi)
                               numVertices vertexStride [0 ..< unat (gi_numMotionSteps gi)]
                               (gi_vertexBufferArray gi);
                gi' = gi\<lparr>gi_vertexBufferArray := arr\<rparr>
            in (case err of
                  Some e \<Rightarrow> (Some e, gi', BuildInput_triangles triangleArray_zero)
                | None \<Rightarrow>
                   let indexed = (gi_indexFormat gi \<noteq> OPTIX_INDICES_FORMAT_NONE);
                       numSbtRecords = (of_nat (length (gi_buildInputFlags gi)) :: u32);
                       many = (1 < numSbtRecords)
                   in (None, gi', BuildInput_triangles
                        \<lparr>tri_vertexBuffers = Some self,
                         tri_numVertices = numVertices,
                         tri_vertexFormat = gi_vertexFormat gi,
                         tri_vertexStrideInBytes = vertexStride,
                         tri_indexBuffer =
                           (if indexed then getCUdeviceptr (gi_triangleBuffer gi) else 0),
                         tri_numIndexTriplets =
                           (if indexed then ucast (numElements (gi_triangleBuffer gi)) else 0),
                         tri_indexFormat = gi_indexFormat gi,
                         tri_indexStrideInBytes =
                           (if indexed then stride (gi_triangleBuffer gi) else 0),
                         tri_preTransform = preTransform,
                         tri_flags = Some self,
                         tri_numSbtRecords = numSbtRecords,
                         tri_sbtIndexOffsetBuffer =
                           (if many then getCUdeviceptr (gi_materialIndexOffsetBuffer gi) else 0),
                         tri_sbtIndexOffsetSizeInBytes =
                           (if many then gi_materialIndexOffsetSize gi else 0),
                         tri_sbtIndexOffsetStrideInBytes =
                           (if many then stride (gi_materialIndexOffsetBuffer gi) else 0),
                         tri_primitiveIndexOffset = gi_primitiveIndexOffset gi,
                         tri_transformFormat =
                           (if preTransform \<noteq> 0 then OPTIX_TRANSFORM_FORMAT_MATRIX_FLOAT12
                            else OPTIX_TRANSFORM_FORMAT_NONE)\<rparr>))))"

text \<open>
  \<^verbatim>\<open>GeometryInstance::Priv::updateBuildInput(input, preTransform)\<close>.  It reads and
  writes the union member of its own primitive kind; reading it from a build input of
  another kind has no defined behaviour.
\<close>

definition GeometryInstance_updateBuildInput ::
  "nat \<Rightarrow> GeometryInstance \<Rightarrow> OptixBuildInput \<Rightarrow> u64
     \<Rightarrow> error option \<times> GeometryInstance \<times> OptixBuildInput" where
  "GeometryInstance_updateBuildInput self gi input preTransform =
     (if gi_forCustomPrimitives gi then
        (case input of
           BuildInput_custom customPrimArray \<Rightarrow>
             (case gi_primitiveAabbBuffers gi of
                [] \<Rightarrow> (Some Undefined, gi, input)
              | b0 # _ \<Rightarrow>
                 let strd = stride b0;
                     numElems = (ucast (numElements b0) :: u32);
                     (err, arr) = motionStepLoop aabbMessages (gi_primitiveAabbBuffers gi)
                                    numElems strd [0 ..< unat (gi_numMotionSteps gi)]
                                    (gi_primitiveAabbBufferArray gi);
                     gi' = gi\<lparr>gi_primitiveAabbBufferArray := arr\<rparr>
                 in (case err of
                       Some e \<Rightarrow> (Some e, gi', input)
                     | None \<Rightarrow>
                        (None, gi', BuildInput_custom
                           (customPrimArray
                              \<lparr>cust_aabbBuffers := Some self,
                               cust_sbtIndexOffsetBuffer :=
                                 (if 1 < cust_numSbtRecords customPrimArray
                                  then getCUdeviceptr (gi_materialIndexOffsetBuffer gi)
                                  else cust_sbtIndexOffsetBuffer customPrimArray)\<rparr>))))
         | _ \<Rightarrow> (Some Undefined, gi, input))
      else
        (case input of
           BuildInput_triangles triArray \<Rightarrow>
             (case gi_vertexBuffers gi of
                [] \<Rightarrow> (Some Undefined, gi, input)
              | b0 # _ \<Rightarrow>
                 let vertexStride = stride b0;
                     numElems = (ucast (numElements b0) :: u32);
                     (err, arr) = motionStepLoop vertexMessages (gi_vertexBuffers gi)
                                    numElems vertexStride [0 ..< unat (gi_numMotionSteps gi)]
                                    (gi_vertexBufferArray gi);
                     gi' = gi\<lparr>gi_vertexBufferArray := arr\<rparr>
                 in (case err of
                       Some e \<Rightarrow> (Some e, gi', input)
                     | None \<Rightarrow>
                        (None, gi', BuildInput_triangles
                           (triArray
                              \<lparr>tri_vertexBuffers := Some self,
                               tri_indexBuffer :=
                                 (if gi_indexFormat gi \<noteq> OPTIX_INDICES_FORMAT_NONE
                                  then getCUdeviceptr (gi_triangleBuffer gi)
                                  else tri_indexBuffer triArray),
                               tri_sbtIndexOffsetBuffer :=
                                 (if 1 < tri_numSbtRecords triArray
                                  then getCUdeviceptr (gi_materialIndexOffsetBuffer gi)
                                  else tri_sbtIndexOffsetBuffer triArray),
                               tri_preTransform := preTransform,
                               tri_transformFormat :=
                                 (if preTransform \<noteq> 0 then OPTIX_TRANSFORM_FORMAT_MATRIX_FLOAT12
                                  else OPTIX_TRANSFORM_FORMAT_NONE)\<rparr>))))
         | _ \<Rightarrow> (Some Undefined, gi, input)))"

text \<open>
  The material a slot contributes for a material set of the GAS: the one bound for that
  set, or the default (set 0) when the slot has no entry for the set or a null one.  A
  null default is a validation failure with the caller's message.
\<close>

definition selectMaterial :: "string \<Rightarrow> u32 \<Rightarrow> nat option list \<Rightarrow> error + nat" where
  "selectMaterial msg gasMatSetIdx slot =
     (case slot of
        [] \<Rightarrow> Inl Undefined
      | None # _ \<Rightarrow> Inl (RuntimeError msg)
      | Some m0 # _ \<Rightarrow>
         let matSetIdx = (if unat gasMatSetIdx < length slot then unat gasMatSetIdx else 0)
         in (case slot ! matSetIdx of None \<Rightarrow> Inr m0 | Some mat \<Rightarrow> Inr mat))"

fun GeometryInstance_maxRecordLoop ::
  "(nat \<rightharpoonup> Material) \<Rightarrow> u32 \<Rightarrow> nat option list list \<Rightarrow> SizeAlign \<Rightarrow> error + SizeAlign" where
  "GeometryInstance_maxRecordLoop mats gasMatSetIdx [] maxRecordSizeAlign =
     Inr maxRecordSizeAlign"
| "GeometryInstance_maxRecordLoop mats gasMatSetIdx (slot # rest) maxRecordSizeAlign =
     (case selectMaterial ''Default material (== material set 0) is not set for the slot %u.''
             gasMatSetIdx slot of
        Inl e \<Rightarrow> Inl e
      | Inr mat \<Rightarrow>
         (case mats mat of
            None \<Rightarrow> Inl Undefined
          | Some material \<Rightarrow>
             let recordSizeAlign =
                   SizeAlign_plus
                     \<lparr>size_sa = OPTIX_SBT_RECORD_HEADER_SIZE,
                      alignment = OPTIX_SBT_RECORD_ALIGNMENT\<rparr>
                     (mat_userDataSizeAlign material)
             in GeometryInstance_maxRecordLoop mats gasMatSetIdx rest
                  (SizeAlign_max maxRecordSizeAlign recordSizeAlign)))"

definition GeometryInstance_calcMaxRecordSizeAlign ::
  "(nat \<rightharpoonup> Material) \<Rightarrow> GeometryInstance \<Rightarrow> u32 \<Rightarrow> error + SizeAlign" where
  "GeometryInstance_calcMaxRecordSizeAlign mats gi gasMatSetIdx =
     (case GeometryInstance_maxRecordLoop mats gasMatSetIdx (gi_materials gi) SizeAlign_default of
        Inl e \<Rightarrow> Inl e
      | Inr maxRecordSizeAlign \<Rightarrow>
         Inr (SizeAlign_plus maxRecordSizeAlign (gi_userDataSizeAlign gi)))"

definition GeometryInstance_getNumSBTRecords :: "GeometryInstance \<Rightarrow> u32" where
  "GeometryInstance_getNumSBTRecords gi = of_nat (length (gi_buildInputFlags gi))"

text \<open>
  \<^verbatim>\<open>Material::Priv::setRecordData\<close> fails when no hit group is set for the pipeline
  and ray type, and when the backend cannot pack the header of the hit group
  (\<open>packHeader\<close> tells for which program groups it can).  The bytes written to the
  record are not modelled.
\<close>

definition Material_setRecordData ::
  "(nat \<Rightarrow> bool) \<Rightarrow> Material \<Rightarrow> nat \<Rightarrow> u32 \<Rightarrow> error option" where
  "Material_setRecordData packHeader mat pipeline rayType =
     (case mat_programs mat (pipeline, rayType) of
        None \<Rightarrow> Some (RuntimeError ''No hit group is set to the pipeline %s, ray type %u'')
      | Some hitGroup \<Rightarrow> if packHeader hitGroup then None else Some BackendError)"

fun rayTypeLoop :: "(nat \<Rightarrow> bool) \<Rightarrow> Material \<Rightarrow> nat \<Rightarrow> nat list \<Rightarrow> error option" where
  "rayTypeLoop packHeader mat pipeline [] = None"
| "rayTypeLoop packHeader mat pipeline (rIdx # rest) =
     (case Material_setRecordData packHeader mat pipeline (of_nat rIdx) of
        Some e \<Rightarrow> Some e
      | None \<Rightarrow> rayTypeLoop packHeader mat pipeline rest)"

fun GeometryInstance_fillLoop ::
  "(nat \<Rightarrow> bool) \<Rightarrow> (nat \<rightharpoonup> Material) \<Rightarrow> nat \<Rightarrow> u32 \<Rightarrow> u32 \<Rightarrow> nat option list list
     \<Rightarrow> error option" where
  "GeometryInstance_fillLoop packHeader mats pipeline gasMatSetIdx numRayTypes [] = None"
| "GeometryInstance_fillLoop packHeader mats pipeline gasMatSetIdx numRayTypes (slot # rest) =
     (case selectMaterial ''Default material (== material set 0) is not set for material %u.''
             gasMatSetIdx slot of
        Inl e \<Rightarrow> Some e
      | Inr mat \<Rightarrow>
         (case mats mat of
            None \<Rightarrow> (if numRayTypes = 0
                      then GeometryInstance_fillLoop packHeader mats pipeline gasMatSetIdx
                             numRayTypes rest
                      else Some Undefined)
          | Some material \<Rightarrow>
             (case rayTypeLoop packHeader material pipeline [0 ..< unat numRayTypes] of
                Some e \<Rightarrow> Some e
              | None \<Rightarrow> GeometryInstance_fillLoop packHeader mats pipeline gasMatSetIdx
                          numRayTypes rest)))"

text \<open>
  \<^verbatim>\<open>GeometryInstance::Priv::fillSBTRecords\<close>: the number of records written,
  \<^verbatim>\<open>numMaterials * numRayTypes\<close>.
\<close>

definition GeometryInstance_fillSBTRecords ::
  "(nat \<Rightarrow> bool) \<Rightarrow> (nat \<rightharpoonup> Material) \<Rightarrow> GeometryInstance \<Rightarrow> nat \<Rightarrow> u32 \<Rightarrow> u32
     \<Rightarrow> error + u32" where
  "GeometryInstance_fillSBTRecords packHeader mats gi pipeline gasMatSetIdx numRayTypes =
     (let numMaterials = (of_nat (length (gi_materials gi)) :: u32)
      in (case GeometryInstance_fillLoop packHeader mats pipeline gasMatSetIdx numRayTypes
                 (gi_materials gi) of
            Some e \<Rightarrow> Inl e
          | None \<Rightarrow> Inr (numMaterials * numRayTypes)))"


section \<open>Acceleration structures, transforms, instances and the scene\<close>

datatype ASTradeoff = Default | PreferFastTrace | PreferFastBuild

record OptixMotionOptions =
  mo_numKeys :: "16 word"
  mo_flags :: "16 word"
  mo_timeBegin :: float32
  mo_timeEnd :: float32

record OptixAccelBuildOptions =
  buildFlags :: u32
  operation :: OptixBuildOperation
  motionOptions :: OptixMotionOptions

record OptixAccelBufferSizes =
  outputSizeInBytes :: u64
  tempSizeInBytes :: u64
  tempUpdateSizeInBytes :: u64

text \<open>Zero-initialised values of these structs.\<close>

definition OptixMotionOptions_zero :: OptixMotionOptions where
  "OptixMotionOptions_zero =
     \<lparr>mo_numKeys = 0, mo_flags = 0, mo_timeBegin = Finite 0, mo_timeEnd = Finite 0\<rparr>"

definition OptixAccelBuildOptions_zero :: OptixAccelBuildOptions where
  "OptixAccelBuildOptions_zero =
     \<lparr>buildFlags = 0, operation = OPTIX_BUILD_OPERATION_ZERO,
      motionOptions = OptixMotionOptions_zero\<rparr>"

definition OptixAccelBufferSizes_zero :: OptixAccelBufferSizes where
  "OptixAccelBufferSizes_zero =
     \<lparr>outputSizeInBytes = 0, tempSizeInBytes = 0, tempUpdateSizeInBytes = 0\<rparr>"

text \<open>
  \<^verbatim>\<open>GeometryAccelerationStructure::Priv\<close>.  A child is the address of a geometry
  instance and a pre-transform.  The event and the device buffer of the compacted size
  belong to the backend; what the backend answers is an argument of the operations.
\<close>

record GAS =
  gas_userDataSizeAlign :: SizeAlign
  gas_numRayTypesPerMaterialSet :: "u32 list"
  gas_children :: "(nat \<times> u64) list"
  gas_buildInputs :: "OptixBuildInput list"
  gas_buildOptions :: OptixAccelBuildOptions
  gas_memoryRequirement :: OptixAccelBufferSizes
  gas_compactedSize :: u64
  gas_handle :: u64
  gas_compactedHandle :: u64
  gas_accelBuffer :: BufferView
  gas_compactedAccelBuffer :: BufferView
  gas_tradeoff :: ASTradeoff
  gas_forCustomPrimitives :: bool
  gas_allowUpdate :: bool
  gas_allowCompaction :: bool
  gas_allowRandomVertexAccess :: bool
  gas_readyToBuild :: bool
  gas_available :: bool
  gas_readyToCompact :: bool
  gas_compactedAvailable :: bool

datatype ChildType = ChildType_GAS | ChildType_IAS | ChildType_Transform | ChildType_Invalid

datatype TransformType = TransformType_MatrixMotion | TransformType_SRTMotion
  | TransformType_Static | TransformType_Invalid

text \<open>
  The byte buffer \<^verbatim>\<open>data\<close> of a transform, read through the struct of its motion
  kind.  Only the static layout is modelled in detail.
\<close>

record OptixStaticTransform =
  st_child :: u64
  st_transform :: "float32 list"
  st_invTransform :: "float32 list"

datatype TransformData = Data_null | Data_static OptixStaticTransform | Data_motion

record Transform =
  tr_childType :: ChildType
  tr_child :: "nat option"
  tr_type :: TransformType
  tr_data :: TransformData
  tr_options :: OptixMotionOptions
  tr_handle :: u64
  tr_available :: bool

record Instance =
  in_scene :: nat
  in_type :: ChildType
  in_child :: "nat option"
  in_matSetIndex :: u32
  in_id :: u32
  in_visibilityMask :: u32
  in_flags :: u32
  in_instTransform :: "float32 list"

record OptixInstance =
  oi_transform :: "float32 list"
  oi_instanceId :: u32
  oi_sbtOffset :: u32
  oi_visibilityMask :: u32
  oi_flags :: u32
  oi_traversableHandle :: u64

definition OptixInstance_zero :: OptixInstance where
  "OptixInstance_zero =
     \<lparr>oi_transform = replicate 12 (Finite 0), oi_instanceId = 0, oi_sbtOffset = 0,
      oi_visibilityMask = 0, oi_flags = 0, oi_traversableHandle = 0\<rparr>"

definition sizeof_OptixInstance :: u64 where
  "sizeof_OptixInstance = 80"

record IAS =
  ias_children :: "nat list"
  ias_buildInput :: OptixBuildInput
  ias_instances :: "OptixInstance list"
  ias_buildOptions :: OptixAccelBuildOptions
  ias_memoryRequirement :: OptixAccelBufferSizes
  ias_compactedSize :: u64
  ias_handle :: u64
  ias_compactedHandle :: u64
  ias_instanceBuffer :: BufferView
  ias_accelBuffer :: BufferView
  ias_compactedAccelBuffer :: BufferView
  ias_tradeoff :: ASTradeoff
  ias_allowUpdate :: bool
  ias_allowCompaction :: bool
  ias_readyToBuild :: bool
  ias_available :: bool
  ias_readyToCompact :: bool
  ias_compactedAvailable :: bool

text \<open>
  \<^verbatim>\<open>Scene::Priv\<close>.  The unordered sets of pointers are lists without repetition, in
  the order in which a range-based \<^verbatim>\<open>for\<close> visits them; C++ guarantees that this
  order does not change while the set is not modified.
\<close>

record Scene =
  sc_geomASs :: "nat list"
  sc_sbtOffsets :: "(nat \<times> u32) \<rightharpoonup> u32"
  sc_singleRecordSize :: u32
  sc_numSBTRecords :: u32
  sc_transforms :: "nat list"
  sc_instASs :: "nat list"
  sc_sbtLayoutIsUpToDate :: bool

text \<open>
  The state of the subsystem: one scene, at address \<open>w_scenePtr\<close>, and the objects on the
  heap, by address.  Geometry instances and instances carry the address of the scene that
  created them; the acceleration structures and transforms of the heap are those of this
  scene.
\<close>

record World =
  w_scenePtr :: nat
  w_scene :: Scene
  w_materials :: "nat \<rightharpoonup> Material"
  w_geomInsts :: "nat \<rightharpoonup> GeometryInstance"
  w_gass :: "nat \<rightharpoonup> GAS"
  w_transforms :: "nat \<rightharpoonup> Transform"
  w_instances :: "nat \<rightharpoonup> Instance"
  w_iass :: "nat \<rightharpoonup> IAS"

text \<open>What an operation returns: the value returned or the error thrown, and the state it leaves.\<close>

type_synonym 'a result = "(error + 'a) \<times> World"

text \<open>A recoverable validation failure is a \<^verbatim>\<open>std::runtime_error\<close> of \<^verbatim>\<open>throwRuntimeError\<close>.\<close>

fun validationFailure :: "error + 'a \<Rightarrow> bool" where
  "validationFailure (Inl (RuntimeError msg)) = True"
| "validationFailure _ = False"

subsection \<open>Private methods of the acceleration structures\<close>

definition IAS_Priv_markDirty :: "IAS \<Rightarrow> IAS" where
  "IAS_Priv_markDirty m =
     m\<lparr>ias_readyToBuild := False, ias_available := False,
       ias_readyToCompact := False, ias_compactedAvailable := False\<rparr>"

definition GAS_Priv_isReady :: "GAS \<Rightarrow> bool" where
  "GAS_Priv_isReady m = (gas_available m \<or> gas_compactedAvailable m)"

definition GAS_Priv_getHandle :: "GAS \<Rightarrow> error + u64" where
  "GAS_Priv_getHandle m =
     (if \<not> GAS_Priv_isReady m then Inl (RuntimeError ''Traversable handle is not ready.'')
      else if gas_compactedAvailable m then Inr (gas_compactedHandle m)
      else if gas_available m then Inr (gas_handle m)
      else Inr 0)"

definition IAS_Priv_isReady :: "IAS \<Rightarrow> bool" where
  "IAS_Priv_isReady m = (ias_available m \<or> ias_compactedAvailable m)"

definition IAS_Priv_getHandle :: "IAS \<Rightarrow> error + u64" where
  "IAS_Priv_getHandle m =
     (if \<not> IAS_Priv_isReady m then Inl (RuntimeError ''Traversable handle is not ready.'')
      else if ias_compactedAvailable m then Inr (ias_compactedHandle m)
      else if ias_available m then Inr (ias_handle m)
      else Inr 0)"

definition Transform_Priv_isReady :: "Transform \<Rightarrow> bool" where
  "Transform_Priv_isReady m = tr_available m"

definition Transform_Priv_getHandle :: "Transform \<Rightarrow> error + u64" where
  "Transform_Priv_getHandle m =
     (if \<not> Transform_Priv_isReady m then Inl (RuntimeError ''Traversable handle is not ready.'')
      else Inr (tr_handle m))"

fun GAS_maxRecordLoop ::
  "World \<Rightarrow> u32 \<Rightarrow> (nat \<times> u64) list \<Rightarrow> SizeAlign \<Rightarrow> error + SizeAlign" where
  "GAS_maxRecordLoop w matSetIdx [] maxRecordSizeAlign = Inr maxRecordSizeAlign"
| "GAS_maxRecordLoop w matSetIdx (child # rest) maxRecordSizeAlign =
     (case w_geomInsts w (fst child) of
        None \<Rightarrow> Inl Undefined
      | Some geomInst \<Rightarrow>
         (case GeometryInstance_calcMaxRecordSizeAlign (w_materials w) geomInst matSetIdx of
            Inl e \<Rightarrow> Inl e
          | Inr sa \<Rightarrow> GAS_maxRecordLoop w matSetIdx rest (SizeAlign_max maxRecordSizeAlign sa)))"

definition GAS_calcMaxRecordSizeAlign :: "World \<Rightarrow> GAS \<Rightarrow> u32 \<Rightarrow> error + SizeAlign" where
  "GAS_calcMaxRecordSizeAlign w m matSetIdx =
     (case GAS_maxRecordLoop w matSetIdx (gas_children m) SizeAlign_default of
        Inl e \<Rightarrow> Inl e
      | Inr maxRecordSizeAlign \<Rightarrow>
         Inr (SizeAlign_plus maxRecordSizeAlign (gas_userDataSizeAlign m)))"

fun GAS_numRecordsLoop :: "World \<Rightarrow> (nat \<times> u64) list \<Rightarrow> u32 \<Rightarrow> error + u32" where
  "GAS_numRecordsLoop w [] numSBTRecords = Inr numSBTRecords"
| "GAS_numRecordsLoop w (child # rest) numSBTRecords =
     (case w_geomInsts w (fst child) of
        None \<Rightarrow> Inl Undefined
      | Some geomInst \<Rightarrow>
         GAS_numRecordsLoop w rest (numSBTRecords + GeometryInstance_getNumSBTRecords geomInst))"

definition GAS_calcNumSBTRecords :: "World \<Rightarrow> GAS \<Rightarrow> u32 \<Rightarrow> error + u32" where
  "GAS_calcNumSBTRecords w m matSetIdx =
     (case GAS_numRecordsLoop w (gas_children m) 0 of
        Inl e \<Rightarrow> Inl e
      | Inr numSBTRecords \<Rightarrow>
         if unat matSetIdx < length (gas_numRayTypesPerMaterialSet m)
         then Inr (numSBTRecords * gas_numRayTypesPerMaterialSet m ! unat matSetIdx)
         else Inl Undefined)"

fun GAS_fillLoop ::
  "(nat \<Rightarrow> bool) \<Rightarrow> World \<Rightarrow> nat \<Rightarrow> u32 \<Rightarrow> u32 \<Rightarrow> (nat \<times> u64) list \<Rightarrow> u32 \<Rightarrow> error + u32" where
  "GAS_fillLoop packHeader w pipeline matSetIdx numRayTypes [] sumRecords = Inr sumRecords"
| "GAS_fillLoop packHeader w pipeline matSetIdx numRayTypes (child # rest) sumRecords =
     (case w_geomInsts w (fst child) of
        None \<Rightarrow> Inl Undefined
      | Some geomInst \<Rightarrow>
         (case GeometryInstance_fillSBTRecords packHeader (w_materials w) geomInst pipeline
                 matSetIdx numRayTypes of
            Inl e \<Rightarrow> Inl e
          | Inr numRecords \<Rightarrow>
             GAS_fillLoop packHeader w pipeline matSetIdx numRayTypes rest
               (sumRecords + numRecords)))"

definition GAS_fillSBTRecords ::
  "(nat \<Rightarrow> bool) \<Rightarrow> World \<Rightarrow> GAS \<Rightarrow> nat \<Rightarrow> u32 \<Rightarrow> error + u32" where
  "GAS_fillSBTRecords packHeader w m pipeline matSetIdx =
     (if \<not> unat matSetIdx < length (gas_numRayTypesPerMaterialSet m)
      then Inl (RuntimeError ''Material set index %u is out of bounds [0, %u).'')
      else
        let numRayTypes = gas_numRayTypesPerMaterialSet m ! unat matSetIdx
        in GAS_fillLoop packHeader w pipeline matSetIdx numRayTypes (gas_children m) 0)"

definition GAS_getNumMaterialSets :: "GAS \<Rightarrow> u32" where
  "GAS_getNumMaterialSets m = of_nat (length (gas_numRayTypesPerMaterialSet m))"

subsection \<open>Scene\<close>

fun markDirtyLoop :: "nat list \<Rightarrow> (nat \<rightharpoonup> IAS) \<Rightarrow> error option \<times> (nat \<rightharpoonup> IAS)" where
  "markDirtyLoop [] iass = (None, iass)"
| "markDirtyLoop (p # rest) iass =
     (case iass p of
        None \<Rightarrow> (Some Undefined, iass)
      | Some ias \<Rightarrow> markDirtyLoop rest (iass(p \<mapsto> IAS_Priv_markDirty ias)))"

definition Scene_markSBTLayoutDirty :: "World \<Rightarrow> error option \<times> World" where
  "Scene_markSBTLayoutDirty w =
     (let w1 = w\<lparr>w_scene := (w_scene w)\<lparr>sc_sbtLayoutIsUpToDate := False\<rparr>\<rparr>;
          (err, iass) = markDirtyLoop (sc_instASs (w_scene w1)) (w_iass w1)
      in (err, w1\<lparr>w_iass := iass\<rparr>))"

definition Scene_getSBTOffset :: "Scene \<Rightarrow> nat \<Rightarrow> u32 \<Rightarrow> error + u32" where
  "Scene_getSBTOffset sc gas matSetIdx =
     (case sc_sbtOffsets sc (gas, matSetIdx) of
        None \<Rightarrow> Inl (RuntimeError ''GAS %s: material set index %u is out of bounds.'')
      | Some off \<Rightarrow> Inr off)"

text \<open>The material-set indices a loop \<^verbatim>\<open>for (matSetIdx = 0; matSetIdx < numMatSets; ++matSetIdx)\<close> visits.\<close>

definition matSetIndices :: "GAS \<Rightarrow> u32 list" where
  "matSetIndices gas = map of_nat [0 ..< unat (GAS_getNumMaterialSets gas)]"

fun matSetMaxLoop :: "World \<Rightarrow> GAS \<Rightarrow> u32 list \<Rightarrow> SizeAlign \<Rightarrow> error + SizeAlign" where
  "matSetMaxLoop w gas [] maxRecordSizeAlign = Inr maxRecordSizeAlign"
| "matSetMaxLoop w gas (matSetIdx # rest) maxRecordSizeAlign =
     (case GAS_calcMaxRecordSizeAlign w gas matSetIdx of
        Inl e \<Rightarrow> Inl e
      | Inr sa \<Rightarrow> matSetMaxLoop w gas rest (SizeAlign_max maxRecordSizeAlign sa))"

text \<open>The first loop of the layout: the record size, as stored so far when an error is thrown.\<close>

fun recordSizeLoop :: "World \<Rightarrow> nat list \<Rightarrow> u32 \<Rightarrow> error option \<times> u32" where
  "recordSizeLoop w [] srs = (None, srs)"
| "recordSizeLoop w (p # rest) srs =
     (case w_gass w p of
        None \<Rightarrow> (Some Undefined, srs)
      | Some gas \<Rightarrow>
         (case matSetMaxLoop w gas (matSetIndices gas) SizeAlign_default of
            Inl e \<Rightarrow> (Some e, srs)
          | Inr maxRecordSizeAlign \<Rightarrow>
             recordSizeLoop w rest
               (max srs (size_sa (SizeAlign_alignUp maxRecordSizeAlign)))))"

text \<open>The second loop: the offset map and the running offset.\<close>

fun offsetInnerLoop ::
  "World \<Rightarrow> nat \<Rightarrow> GAS \<Rightarrow> u32 list \<Rightarrow> ((nat \<times> u32) \<rightharpoonup> u32) \<times> u32
     \<Rightarrow> error option \<times> ((nat \<times> u32) \<rightharpoonup> u32) \<times> u32" where
  "offsetInnerLoop w p gas [] acc = (None, acc)"
| "offsetInnerLoop w p gas (matSetIdx # rest) acc =
     (case GAS_calcNumSBTRecords w gas matSetIdx of
        Inl e \<Rightarrow> (Some e, acc)
      | Inr gasNumSBTRecords \<Rightarrow>
         offsetInnerLoop w p gas rest
           ((fst acc)((p, matSetIdx) \<mapsto> snd acc), snd acc + gasNumSBTRecords))"

fun offsetLoop ::
  "World \<Rightarrow> nat list \<Rightarrow> ((nat \<times> u32) \<rightharpoonup> u32) \<times> u32
     \<Rightarrow> error option \<times> ((nat \<times> u32) \<rightharpoonup> u32) \<times> u32" where
  "offsetLoop w [] acc = (None, acc)"
| "offsetLoop w (p # rest) acc =
     (case w_gass w p of
        None \<Rightarrow> (Some Undefined, acc)
      | Some gas \<Rightarrow>
         (case offsetInnerLoop w p gas (matSetIndices gas) acc of
            (Some e, acc') \<Rightarrow> (Some e, acc')
          | (None, acc') \<Rightarrow> offsetLoop w rest acc'))"

text \<open>
  \<^verbatim>\<open>Scene::generateShaderBindingTableLayout(&memorySize)\<close>: the value stored in
  \<^verbatim>\<open>*memorySize\<close>.  The product is computed in 32 bits and widened afterwards.
\<close>

definition Scene_generateShaderBindingTableLayout :: "World \<Rightarrow> u64 result" where
  "Scene_generateShaderBindingTableLayout w =
     (let m = w_scene w in
      if sc_sbtLayoutIsUpToDate m
      then (Inr (ucast (sc_singleRecordSize m * max (sc_numSBTRecords m) 1)), w)
      else
        let m1 = m\<lparr>sc_sbtOffsets := Map.empty, sc_singleRecordSize := OPTIX_SBT_RECORD_HEADER_SIZE\<rparr>;
            (err1, srs) = recordSizeLoop w (sc_geomASs m1) (sc_singleRecordSize m1);
            m2 = m1\<lparr>sc_singleRecordSize := srs\<rparr>
        in (case err1 of
              Some e \<Rightarrow> (Inl e, w\<lparr>w_scene := m2\<rparr>)
            | None \<Rightarrow>
               let (err2, offs, sbtOffset) = offsetLoop w (sc_geomASs m2) (sc_sbtOffsets m2, 0);
                   m3 = m2\<lparr>sc_sbtOffsets := offs\<rparr>
               in (case err2 of
                     Some e \<Rightarrow> (Inl e, w\<lparr>w_scene := m3\<rparr>)
                   | None \<Rightarrow>
                      let m4 = m3\<lparr>sc_numSBTRecords := sbtOffset, sc_sbtLayoutIsUpToDate := True\<rparr>
                      in (Inr (ucast (sc_singleRecordSize m4 * max (sc_numSBTRecords m4) 1)),
                          w\<lparr>w_scene := m4\<rparr>))))"

text \<open>
  \<^verbatim>\<open>Scene::Priv::setupHitGroupSBT\<close>.  The cursor \<^verbatim>\<open>records\<close> is a byte offset from
  \<^verbatim>\<open>hostMem\<close>.  Besides the error thrown, the result lists the calls
  \<^verbatim>\<open>gas->fillSBTRecords(pipeline, matSetIdx, records)\<close> in the order they are made: the
  GAS, the material-set index and the cursor.  The increment of the cursor is a 32-bit
  product.
\<close>

fun hitGroupInnerLoop ::
  "(nat \<Rightarrow> bool) \<Rightarrow> World \<Rightarrow> nat \<Rightarrow> nat \<Rightarrow> GAS \<Rightarrow> u32 list \<Rightarrow> nat
     \<Rightarrow> error option \<times> (nat \<times> u32 \<times> nat) list \<times> nat" where
  "hitGroupInnerLoop packHeader w pipeline p gas [] records = (None, [], records)"
| "hitGroupInnerLoop packHeader w pipeline p gas (matSetIdx # rest) records =
     (case GAS_fillSBTRecords packHeader w gas pipeline matSetIdx of
        Inl e \<Rightarrow> (Some e, [(p, matSetIdx, records)], records)
      | Inr numRecords \<Rightarrow>
         let (err, calls, records') =
               hitGroupInnerLoop packHeader w pipeline p gas rest
                 (records + unat (numRecords * sc_singleRecordSize (w_scene w)))
         in (err, (p, matSetIdx, records) # calls, records'))"

fun hitGroupLoop ::
  "(nat \<Rightarrow> bool) \<Rightarrow> World \<Rightarrow> nat \<Rightarrow> nat list \<Rightarrow> nat
     \<Rightarrow> error option \<times> (nat \<times> u32 \<times> nat) list" where
  "hitGroupLoop packHeader w pipeline [] records = (None, [])"
| "hitGroupLoop packHeader w pipeline (p # rest) records =
     (case w_gass w p of
        None \<Rightarrow> (Some Undefined, [])
      | Some gas \<Rightarrow>
         (case hitGroupInnerLoop packHeader w pipeline p gas (matSetIndices gas) records of
            (Some e, calls, records') \<Rightarrow> (Some e, calls)
          | (None, calls, records') \<Rightarrow>
             let (err, calls') = hitGroupLoop packHeader w pipeline rest records'
             in (err, calls @ calls')))"

definition Scene_setupHitGroupSBT ::
  "(nat \<Rightarrow> bool) \<Rightarrow> bool \<Rightarrow> World \<Rightarrow> nat \<Rightarrow> BufferView
     \<Rightarrow> error option \<times> (nat \<times> u32 \<times> nat) list" where
  "Scene_setupHitGroupSBT packHeader memcpyOk w pipeline sbt =
     (let m = w_scene w in
      if \<not> ucast (sc_singleRecordSize m * sc_numSBTRecords m) \<le> sizeInBytes sbt
      then (Some (RuntimeError ''Hit group shader binding table size is not enough.''), [])
      else
        (case hitGroupLoop packHeader w pipeline (sc_geomASs m) 0 of
           (Some e, calls) \<Rightarrow> (Some e, calls)
         | (None, calls) \<Rightarrow> (if memcpyOk then None else Some BackendError, calls)))"


subsection \<open>GeometryAccelerationStructure: public operations\<close>

text \<open>Turns the error thrown by a \<^verbatim>\<open>void\<close> helper into the result of the operation.\<close>

definition throwing :: "error option \<times> World \<Rightarrow> unit result" where
  "throwing r = (case fst r of Some e \<Rightarrow> (Inl e, snd r) | None \<Rightarrow> (Inr (), snd r))"

text \<open>\<^verbatim>\<open>std::vector::resize(n, v)\<close>\<close>

definition resize :: "nat \<Rightarrow> 'a \<Rightarrow> 'a list \<Rightarrow> 'a list" where
  "resize n v xs = take n xs @ replicate (n - length xs) v"

definition GAS_Priv_markDirty :: "nat \<Rightarrow> World \<Rightarrow> error option \<times> World" where
  "GAS_Priv_markDirty p w =
     (case w_gass w p of
        None \<Rightarrow> (Some Undefined, w)
      | Some m \<Rightarrow>
         Scene_markSBTLayoutDirty
           (w\<lparr>w_gass := (w_gass w)(p \<mapsto>
                m\<lparr>gas_readyToBuild := False, gas_available := False,
                  gas_readyToCompact := False, gas_compactedAvailable := False\<rparr>)\<rparr>))"

definition GAS_setConfiguration ::
  "nat \<Rightarrow> ASTradeoff \<Rightarrow> bool \<Rightarrow> bool \<Rightarrow> bool \<Rightarrow> World \<Rightarrow> unit result" where
  "GAS_setConfiguration p tradeoff allowUpdate allowCompaction allowRandomVertexAccess w =
     (case w_gass w p of
        None \<Rightarrow> (Inl Undefined, w)
      | Some m \<Rightarrow>
         if gas_forCustomPrimitives m \<and> allowRandomVertexAccess
         then (Inl (RuntimeError ''Random vertex access is the feature only for triangle GAS.''), w)
         else
           let changed = (gas_tradeoff m \<noteq> tradeoff \<or> gas_allowUpdate m \<noteq> allowUpdate
                          \<or> gas_allowCompaction m \<noteq> allowCompaction
                          \<or> gas_allowRandomVertexAccess m \<noteq> allowRandomVertexAccess);
               m' = m\<lparr>gas_tradeoff := tradeoff, gas_allowUpdate := allowUpdate,
                       gas_allowCompaction := allowCompaction,
                       gas_allowRandomVertexAccess := allowRandomVertexAccess\<rparr>;
               w' = w\<lparr>w_gass := (w_gass w)(p \<mapsto> m')\<rparr>
           in if changed then throwing (GAS_Priv_markDirty p w') else (Inr (), w'))"

definition GAS_setMotionOptions ::
  "nat \<Rightarrow> u32 \<Rightarrow> float32 \<Rightarrow> float32 \<Rightarrow> u32 \<Rightarrow> World \<Rightarrow> unit result" where
  "GAS_setMotionOptions p numKeys timeBegin timeEnd flags w =
     (case w_gass w p of
        None \<Rightarrow> (Inl Undefined, w)
      | Some m \<Rightarrow>
         let m' = m\<lparr>gas_buildOptions := (gas_buildOptions m)\<lparr>motionOptions :=
                      \<lparr>mo_numKeys = ucast numKeys, mo_flags = ucast flags,
                       mo_timeBegin = timeBegin, mo_timeEnd = timeEnd\<rparr>\<rparr>\<rparr>
         in throwing (GAS_Priv_markDirty p (w\<lparr>w_gass := (w_gass w)(p \<mapsto> m')\<rparr>)))"

definition GAS_addChild :: "nat \<Rightarrow> nat option \<Rightarrow> u64 \<Rightarrow> World \<Rightarrow> unit result" where
  "GAS_addChild p geomInst preTransform w =
     (case w_gass w p of
        None \<Rightarrow> (Inl Undefined, w)
      | Some m \<Rightarrow>
         (case geomInst of
            None \<Rightarrow> (Inl (RuntimeError ''Invalid geometry instance %p.''), w)
          | Some g \<Rightarrow>
             (case w_geomInsts w g of
                None \<Rightarrow> (Inl Undefined, w)
              | Some gi \<Rightarrow>
                 if gi_scene gi \<noteq> w_scenePtr w
                 then (Inl (RuntimeError ''Scene mismatch for the given geometry instance %s.''), w)
                 else if gi_forCustomPrimitives gi \<noteq> gas_forCustomPrimitives m
                 then (Inl (RuntimeError ''This GAS was created for %s.''), w)
                 else if (g, preTransform) \<in> set (gas_children m)
                 then (Inl (RuntimeError ''Geometry instance %s with transform %p has been already added.''), w)
                 else
                   let m' = m\<lparr>gas_children := gas_children m @ [(g, preTransform)]\<rparr>
                   in throwing (GAS_Priv_markDirty p (w\<lparr>w_gass := (w_gass w)(p \<mapsto> m')\<rparr>)))))"

definition GAS_removeChild :: "nat \<Rightarrow> nat option \<Rightarrow> u64 \<Rightarrow> World \<Rightarrow> unit result" where
  "GAS_removeChild p geomInst preTransform w =
     (case w_gass w p of
        None \<Rightarrow> (Inl Undefined, w)
      | Some m \<Rightarrow>
         (case geomInst of
            None \<Rightarrow> (Inl (RuntimeError ''Invalid geometry instance %p.''), w)
          | Some g \<Rightarrow>
             (case w_geomInsts w g of
                None \<Rightarrow> (Inl Undefined, w)
              | Some gi \<Rightarrow>
                 if gi_scene gi \<noteq> w_scenePtr w
                 then (Inl (RuntimeError ''Scene mismatch for the given geometry instance %s.''), w)
                 else if (g, preTransform) \<notin> set (gas_children m)
                 then (Inl (RuntimeError ''Geometry instance %s with transform %p has not been added.''), w)
                 else
                   let m' = m\<lparr>gas_children := remove1 (g, preTransform) (gas_children m)\<rparr>
                   in throwing (GAS_Priv_markDirty p (w\<lparr>w_gass := (w_gass w)(p \<mapsto> m')\<rparr>)))))"

definition GAS_markDirty :: "nat \<Rightarrow> World \<Rightarrow> unit result" where
  "GAS_markDirty p w = throwing (GAS_Priv_markDirty p w)"

definition GAS_setNumMaterialSets :: "nat \<Rightarrow> u32 \<Rightarrow> World \<Rightarrow> unit result" where
  "GAS_setNumMaterialSets p numMatSets w =
     (case w_gass w p of
        None \<Rightarrow> (Inl Undefined, w)
      | Some m \<Rightarrow>
         let m' = m\<lparr>gas_numRayTypesPerMaterialSet :=
                      resize (unat numMatSets) 0 (gas_numRayTypesPerMaterialSet m)\<rparr>
         in throwing (Scene_markSBTLayoutDirty (w\<lparr>w_gass := (w_gass w)(p \<mapsto> m')\<rparr>)))"

definition GAS_setNumRayTypes :: "nat \<Rightarrow> u32 \<Rightarrow> u32 \<Rightarrow> World \<Rightarrow> unit result" where
  "GAS_setNumRayTypes p matSetIdx numRayTypes w =
     (case w_gass w p of
        None \<Rightarrow> (Inl Undefined, w)
      | Some m \<Rightarrow>
         if \<not> unat matSetIdx < length (gas_numRayTypesPerMaterialSet m)
         then (Inl (RuntimeError ''Material set index %u is out of bounds [0, %u).''), w)
         else
           let m' = m\<lparr>gas_numRayTypesPerMaterialSet :=
                        (gas_numRayTypesPerMaterialSet m)[unat matSetIdx := numRayTypes]\<rparr>
           in throwing (Scene_markSBTLayoutDirty (w\<lparr>w_gass := (w_gass w)(p \<mapsto> m')\<rparr>)))"

text \<open>
  The loop of \<^verbatim>\<open>prepareForBuild\<close> over the children: build inputs and geometry
  instances as written when the loop ends or throws.
\<close>

fun GAS_fillInputsLoop ::
  "u32 \<Rightarrow> (nat \<times> u64) list \<Rightarrow> nat \<Rightarrow> OptixBuildInput list \<Rightarrow> (nat \<rightharpoonup> GeometryInstance)
     \<Rightarrow> error option \<times> OptixBuildInput list \<times> (nat \<rightharpoonup> GeometryInstance)" where
  "GAS_fillInputsLoop numMotionSteps [] childIdx inputs gis = (None, inputs, gis)"
| "GAS_fillInputsLoop numMotionSteps (child # rest) childIdx inputs gis =
     (case gis (fst child) of
        None \<Rightarrow> (Some Undefined, inputs, gis)
      | Some gi \<Rightarrow>
         if \<not> childIdx < length inputs then (Some Undefined, inputs, gis)
         else
           let (err, gi', input) = GeometryInstance_fillBuildInput (fst child) gi (snd child);
               inputs' = inputs[childIdx := input];
               gis' = gis(fst child \<mapsto> gi')
           in (case err of
                 Some e \<Rightarrow> (Some e, inputs', gis')
               | None \<Rightarrow>
                  if gi_numMotionSteps gi' \<noteq> numMotionSteps
                  then (Some (RuntimeError ''This GAS has %u motion steps but the GeometryInstance %s has the number %u.''),
                        inputs', gis')
                  else GAS_fillInputsLoop numMotionSteps rest (Suc childIdx) inputs' gis'))"

fun GAS_updateInputsLoop ::
  "(nat \<times> u64) list \<Rightarrow> nat \<Rightarrow> OptixBuildInput list \<Rightarrow> (nat \<rightharpoonup> GeometryInstance)
     \<Rightarrow> error option \<times> OptixBuildInput list \<times> (nat \<rightharpoonup> GeometryInstance)" where
  "GAS_updateInputsLoop [] childIdx inputs gis = (None, inputs, gis)"
| "GAS_updateInputsLoop (child # rest) childIdx inputs gis =
     (case gis (fst child) of
        None \<Rightarrow> (Some Undefined, inputs, gis)
      | Some gi \<Rightarrow>
         if \<not> childIdx < length inputs then (Some Undefined, inputs, gis)
         else
           let (err, gi', input) =
                 GeometryInstance_updateBuildInput (fst child) gi (inputs ! childIdx) (snd child);
               inputs' = inputs[childIdx := input];
               gis' = gis(fst child \<mapsto> gi')
           in (case err of
                 Some e \<Rightarrow> (Some e, inputs', gis')
               | None \<Rightarrow> GAS_updateInputsLoop rest (Suc childIdx) inputs' gis'))"

definition GAS_buildFlags :: "GAS \<Rightarrow> u32" where
  "GAS_buildFlags m =
     (let f0 = (0 :: u32);
          f1 = (if gas_tradeoff m = PreferFastTrace then f0 OR OPTIX_BUILD_FLAG_PREFER_FAST_TRACE
                else if gas_tradeoff m = PreferFastBuild
                  then f0 OR OPTIX_BUILD_FLAG_PREFER_FAST_BUILD
                else f0)
      in f1 OR ((if gas_allowUpdate m then OPTIX_BUILD_FLAG_ALLOW_UPDATE else 0)
                OR (if gas_allowCompaction m then OPTIX_BUILD_FLAG_ALLOW_COMPACTION else 0)
                OR (if gas_allowRandomVertexAccess m
                    then OPTIX_BUILD_FLAG_ALLOW_RANDOM_VERTEX_ACCESS else 0)))"

text \<open>
  \<^verbatim>\<open>prepareForBuild\<close>; \<open>memUsage\<close> is what \<^verbatim>\<open>optixAccelComputeMemoryUsage\<close>
  answers, \<open>None\<close> when it fails.
\<close>

definition GAS_prepareForBuild ::
  "nat \<Rightarrow> OptixAccelBufferSizes option \<Rightarrow> World \<Rightarrow> OptixAccelBufferSizes result" where
  "GAS_prepareForBuild p memUsage w =
     (case w_gass w p of
        None \<Rightarrow> (Inl Undefined, w)
      | Some m \<Rightarrow>
         let inputs0 = resize (length (gas_children m)) BuildInput_zero (gas_buildInputs m);
             numMotionSteps = max (ucast (mo_numKeys (motionOptions (gas_buildOptions m)))) (1 :: u32);
             (err, inputs, gis) =
               GAS_fillInputsLoop numMotionSteps (gas_children m) 0 inputs0 (w_geomInsts w);
             m1 = m\<lparr>gas_buildInputs := inputs\<rparr>
         in (case err of
               Some e \<Rightarrow> (Inl e, w\<lparr>w_gass := (w_gass w)(p \<mapsto> m1), w_geomInsts := gis\<rparr>)
             | None \<Rightarrow>
                let m2 = m1\<lparr>gas_buildOptions := (gas_buildOptions m1)
                              \<lparr>operation := OPTIX_BUILD_OPERATION_BUILD,
                               buildFlags := GAS_buildFlags m1\<rparr>\<rparr>
                in (case memUsage of
                      None \<Rightarrow> (Inl BackendError,
                                w\<lparr>w_gass := (w_gass w)(p \<mapsto> m2), w_geomInsts := gis\<rparr>)
                    | Some req \<Rightarrow>
                       let m3 = m2\<lparr>gas_memoryRequirement := req, gas_readyToBuild := True\<rparr>
                       in (Inr req, w\<lparr>w_gass := (w_gass w)(p \<mapsto> m3), w_geomInsts := gis\<rparr>))))"

text \<open>
  \<^verbatim>\<open>rebuild\<close>; \<open>built\<close> is the handle \<^verbatim>\<open>optixAccelBuild\<close> stores (\<open>None\<close> when
  it fails) and \<open>recorded\<close> tells whether \<^verbatim>\<open>cuEventRecord\<close> succeeds.
\<close>

definition GAS_rebuild ::
  "nat \<Rightarrow> BufferView \<Rightarrow> BufferView \<Rightarrow> u64 option \<Rightarrow> bool \<Rightarrow> World \<Rightarrow> u64 result" where
  "GAS_rebuild p accelBuffer scratchBuffer built recorded w =
     (case w_gass w p of
        None \<Rightarrow> (Inl Undefined, w)
      | Some m \<Rightarrow>
         if \<not> gas_readyToBuild m
         then (Inl (RuntimeError ''You need to call prepareForBuild() before rebuild.''), w)
         else if \<not> outputSizeInBytes (gas_memoryRequirement m) \<le> sizeInBytes accelBuffer
         then (Inl (RuntimeError ''Size of the given buffer is not enough.''), w)
         else if \<not> tempSizeInBytes (gas_memoryRequirement m) \<le> sizeInBytes scratchBuffer
         then (Inl (RuntimeError ''Size of the given scratch buffer is not enough.''), w)
         else
           let (err, inputs, gis) =
                 GAS_updateInputsLoop (gas_children m) 0 (gas_buildInputs m) (w_geomInsts w);
               m1 = m\<lparr>gas_buildInputs := inputs\<rparr>
           in (case err of
                 Some e \<Rightarrow> (Inl e, w\<lparr>w_gass := (w_gass w)(p \<mapsto> m1), w_geomInsts := gis\<rparr>)
               | None \<Rightarrow>
                  let m2 = m1\<lparr>gas_buildOptions := (gas_buildOptions m1)
                                \<lparr>operation := OPTIX_BUILD_OPERATION_BUILD\<rparr>\<rparr>
                  in (case built of
                        None \<Rightarrow> (Inl BackendError,
                                  w\<lparr>w_gass := (w_gass w)(p \<mapsto> m2), w_geomInsts := gis\<rparr>)
                      | Some h \<Rightarrow>
                         let m3 = m2\<lparr>gas_handle := h\<rparr>
                         in if \<not> recorded
                            then (Inl BackendError,
                                  w\<lparr>w_gass := (w_gass w)(p \<mapsto> m3), w_geomInsts := gis\<rparr>)
                            else
                              let m4 = m3\<lparr>gas_accelBuffer := accelBuffer,
                                          gas_available := True,
                                          gas_readyToCompact := False,
                                          gas_compactedHandle := 0,
                                          gas_compactedAvailable := False\<rparr>
                              in (Inr (gas_handle m4),
                                  w\<lparr>w_gass := (w_gass w)(p \<mapsto> m4), w_geomInsts := gis\<rparr>))))"

text \<open>
  \<^verbatim>\<open>prepareForCompact\<close>; \<open>synced\<close> tells whether \<^verbatim>\<open>cuEventSynchronize\<close> succeeds
  and \<open>readBack\<close> is the size \<^verbatim>\<open>cuMemcpyDtoH\<close> reads back.  The result is the value
  stored in \<^verbatim>\<open>*compactedAccelBufferSize\<close>, \<open>None\<close> when nothing is stored.
\<close>

definition GAS_prepareForCompact ::
  "nat \<Rightarrow> bool \<Rightarrow> u64 option \<Rightarrow> World \<Rightarrow> u64 option result" where
  "GAS_prepareForCompact p synced readBack w =
     (case w_gass w p of
        None \<Rightarrow> (Inl Undefined, w)
      | Some m \<Rightarrow>
         let compactionEnabled =
               (buildFlags (gas_buildOptions m) AND OPTIX_BUILD_FLAG_ALLOW_COMPACTION \<noteq> 0)
         in if \<not> compactionEnabled
            then (Inl (RuntimeError ''This AS does not allow compaction.''), w)
            else if \<not> gas_available m
            then (Inl (RuntimeError ''Uncompacted AS has not been built yet.''), w)
            else if gas_compactedAvailable m then (Inr None, w)
            else if \<not> synced then (Inl BackendError, w)
            else
              (case readBack of
                 None \<Rightarrow> (Inl BackendError, w)
               | Some sz \<Rightarrow>
                  let m' = m\<lparr>gas_compactedSize := sz, gas_readyToCompact := True\<rparr>
                  in (Inr (Some sz), w\<lparr>w_gass := (w_gass w)(p \<mapsto> m')\<rparr>)))"

definition GAS_compact ::
  "nat \<Rightarrow> BufferView \<Rightarrow> u64 option \<Rightarrow> bool \<Rightarrow> World \<Rightarrow> u64 result" where
  "GAS_compact p compactedAccelBuffer compacted recorded w =
     (case w_gass w p of
        None \<Rightarrow> (Inl Undefined, w)
      | Some m \<Rightarrow>
         let compactionEnabled =
               (buildFlags (gas_buildOptions m) AND OPTIX_BUILD_FLAG_ALLOW_COMPACTION \<noteq> 0)
         in if \<not> compactionEnabled
            then (Inl (RuntimeError ''This AS does not allow compaction.''), w)
            else if \<not> gas_readyToCompact m
            then (Inl (RuntimeError ''You need to call prepareForCompact() before compaction.''), w)
            else if \<not> gas_available m
            then (Inl (RuntimeError ''Uncompacted AS has not been built yet.''), w)
            else if \<not> gas_compactedSize m \<le> sizeInBytes compactedAccelBuffer
            then (Inl (RuntimeError ''Size of the given buffer is not enough.''), w)
            else
              (case compacted of
                 None \<Rightarrow> (Inl BackendError, w)
               | Some h \<Rightarrow>
                  let m1 = m\<lparr>gas_compactedHandle := h\<rparr>
                  in if \<not> recorded
                     then (Inl BackendError, w\<lparr>w_gass := (w_gass w)(p \<mapsto> m1)\<rparr>)
                     else
                       let m2 = m1\<lparr>gas_compactedAccelBuffer := compactedAccelBuffer,
                                   gas_compactedAvailable := True\<rparr>
                       in (Inr (gas_compactedHandle m2),
                           w\<lparr>w_gass := (w_gass w)(p \<mapsto> m2)\<rparr>)))"

definition GAS_removeUncompacted :: "nat \<Rightarrow> bool \<Rightarrow> World \<Rightarrow> unit result" where
  "GAS_removeUncompacted p synced w =
     (case w_gass w p of
        None \<Rightarrow> (Inl Undefined, w)
      | Some m \<Rightarrow>
         let compactionEnabled =
               (buildFlags (gas_buildOptions m) AND OPTIX_BUILD_FLAG_ALLOW_COMPACTION \<noteq> 0)
         in if \<not> gas_compactedAvailable m \<or> \<not> compactionEnabled then (Inr (), w)
            else if \<not> synced then (Inl BackendError, w)
            else (Inr (), w\<lparr>w_gass := (w_gass w)(p \<mapsto>
                            m\<lparr>gas_handle := 0, gas_available := False\<rparr>)\<rparr>))"

definition GAS_update :: "nat \<Rightarrow> BufferView \<Rightarrow> u64 option \<Rightarrow> World \<Rightarrow> unit result" where
  "GAS_update p scratchBuffer built w =
     (case w_gass w p of
        None \<Rightarrow> (Inl Undefined, w)
      | Some m \<Rightarrow>
         let updateEnabled =
               (buildFlags (gas_buildOptions m) AND OPTIX_BUILD_FLAG_ALLOW_UPDATE \<noteq> 0)
         in if \<not> updateEnabled
            then (Inl (RuntimeError ''This AS does not allow update.''), w)
            else if \<not> (gas_available m \<or> gas_compactedAvailable m)
            then (Inl (RuntimeError ''AS has not been built yet.''), w)
            else if \<not> tempUpdateSizeInBytes (gas_memoryRequirement m) \<le> sizeInBytes scratchBuffer
            then (Inl (RuntimeError ''Size of the given scratch buffer is not enough.''), w)
            else
              let (err, inputs, gis) =
                    GAS_updateInputsLoop (gas_children m) 0 (gas_buildInputs m) (w_geomInsts w);
                  m1 = m\<lparr>gas_buildInputs := inputs\<rparr>
              in (case err of
                    Some e \<Rightarrow> (Inl e, w\<lparr>w_gass := (w_gass w)(p \<mapsto> m1), w_geomInsts := gis\<rparr>)
                  | None \<Rightarrow>
                     let m2 = m1\<lparr>gas_buildOptions := (gas_buildOptions m1)
                                   \<lparr>operation := OPTIX_BUILD_OPERATION_UPDATE\<rparr>\<rparr>;
                         w' = w\<lparr>w_gass := (w_gass w)(p \<mapsto> m2), w_geomInsts := gis\<rparr>
                     in (case built of
                           None \<Rightarrow> (Inl BackendError, w')
                         | Some tempHandle \<Rightarrow> (Inr (), w'))))"

definition GAS_setUserData :: "nat \<Rightarrow> u32 \<Rightarrow> u32 \<Rightarrow> World \<Rightarrow> unit result" where
  "GAS_setUserData p sz algn w =
     (case w_gass w p of
        None \<Rightarrow> (Inl Undefined, w)
      | Some m \<Rightarrow>
         if \<not> sz \<le> s_maxGASUserDataSize
         then (Inl (RuntimeError ''Maximum user data size for Material is %u bytes.''), w)
         else if \<not> (0 < algn \<and> algn \<le> OPTIX_SBT_RECORD_ALIGNMENT)
         then (Inl (RuntimeError ''Valid alignment range is [1, %u].''), w)
         else (Inr (), w\<lparr>w_gass := (w_gass w)(p \<mapsto>
                         m\<lparr>gas_userDataSizeAlign := \<lparr>size_sa = sz, alignment = algn\<rparr>\<rparr>)\<rparr>))"


subsection \<open>Transform\<close>

text \<open>
  \<^verbatim>\<open>Transform::Priv::getDescendantGAS\<close> follows the chain of transforms, which may be
  cyclic: \<open>None\<close> is the recursion that does not end.  The value is the address of the
  GAS, \<open>None\<close> for \<^verbatim>\<open>nullptr\<close>.
\<close>

partial_function (option) Transform_getDescendantGAS ::
  "(nat \<rightharpoonup> Transform) \<Rightarrow> nat \<Rightarrow> (error + nat option) option" where
  "Transform_getDescendantGAS trs p =
     (case trs p of
        None \<Rightarrow> Some (Inl Undefined)
      | Some m \<Rightarrow>
         (case tr_childType m of
            ChildType_GAS \<Rightarrow> Some (Inr (tr_child m))
          | ChildType_IAS \<Rightarrow> Some (Inr None)
          | ChildType_Transform \<Rightarrow>
             (case tr_child m of
                None \<Rightarrow> Some (Inl Undefined)
              | Some c \<Rightarrow> Transform_getDescendantGAS trs c)
          | ChildType_Invalid \<Rightarrow> Some (Inr None)))"

declare Transform_getDescendantGAS.simps [code]

definition Transform_Priv_markDirty :: "Transform \<Rightarrow> Transform" where
  "Transform_Priv_markDirty m = m\<lparr>tr_available := False\<rparr>"

text \<open>
  \<^verbatim>\<open>Transform::setStaticTransform(matrix)\<close>, with \<^verbatim>\<open>matrix\<close> an array of twelve
  floats.  The sums and differences of the determinant associate to the left, as in C++.
\<close>

definition Transform_setStaticTransform :: "nat \<Rightarrow> float32 list \<Rightarrow> World \<Rightarrow> unit result" where
  "Transform_setStaticTransform p matrix w =
     (case w_transforms w p of
        None \<Rightarrow> (Inl Undefined, w)
      | Some m \<Rightarrow>
         if tr_type m \<noteq> TransformType_Static
         then (Inl (RuntimeError ''This transform has been configured as static transform.''), w)
         else if length matrix \<noteq> 12 then (Inl Undefined, w)
         else
           let a = (\<lambda>i. matrix ! i);
               det = fl_sub (fl_sub (fl_sub
                       (fl_add (fl_add (fl_mul (fl_mul (a 0) (a 5)) (a 10))
                                       (fl_mul (fl_mul (a 1) (a 6)) (a 8)))
                               (fl_mul (fl_mul (a 2) (a 4)) (a 9)))
                       (fl_mul (fl_mul (a 2) (a 5)) (a 8)))
                       (fl_mul (fl_mul (a 1) (a 4)) (a 10)))
                       (fl_mul (fl_mul (a 0) (a 6)) (a 9));
               invDet = fl_div (Finite 1) det
           in if \<not> fl_ne invDet (Finite 0)
              then (Inl (RuntimeError ''Given matrix is not invertible.''), w)
              else
                (case tr_data m of
                   Data_static xfm \<Rightarrow>
                     let invMat =
                           [fl_mul invDet (fl_sub (fl_mul (a 5) (a 10)) (fl_mul (a 6) (a 9))),
                            fl_mul invDet (fl_sub (fl_mul (a 2) (a 9)) (fl_mul (a 1) (a 10))),
                            fl_mul invDet (fl_sub (fl_mul (a 1) (a 6)) (fl_mul (a 2) (a 5))),
                            fl_neg (a 3),
                            fl_mul invDet (fl_sub (fl_mul (a 6) (a 8)) (fl_mul (a 4) (a 10))),
                            fl_mul invDet (fl_sub (fl_mul (a 0) (a 10)) (fl_mul (a 2) (a 8))),
                            fl_mul invDet (fl_sub (fl_mul (a 2) (a 4)) (fl_mul (a 0) (a 6))),
                            fl_neg (a 7),
                            fl_mul invDet (fl_sub (fl_mul (a 4) (a 9)) (fl_mul (a 5) (a 8))),
                            fl_mul invDet (fl_sub (fl_mul (a 1) (a 8)) (fl_mul (a 0) (a 9))),
                            fl_mul invDet (fl_sub (fl_mul (a 0) (a 5)) (fl_mul (a 1) (a 4))),
                            fl_neg (a 11)];
                         xfm' = xfm\<lparr>st_transform := matrix, st_invTransform := invMat\<rparr>;
                         m' = Transform_Priv_markDirty (m\<lparr>tr_data := Data_static xfm'\<rparr>)
                     in (Inr (), w\<lparr>w_transforms := (w_transforms w)(p \<mapsto> m')\<rparr>)
                 | _ \<Rightarrow> (Inl Undefined, w)))"

text \<open>
  \<^verbatim>\<open>Transform::setConfiguration(type, numKeys, transformSize)\<close>.  For a static
  transform it allocates the data and stores the initial matrices exactly as the source
  writes them (ones at the indices 0, 4 and 8).  The data of the motion kinds and the
  size stored in \<^verbatim>\<open>*transformSize\<close> are not modelled.
\<close>

definition initialMatrix :: "float32 list" where
  "initialMatrix =
     [Finite 1, Finite 0, Finite 0, Finite 0,
      Finite 1, Finite 0, Finite 0, Finite 0,
      Finite 1, Finite 0, Finite 0, Finite 0]"

definition Transform_setConfiguration :: "nat \<Rightarrow> TransformType \<Rightarrow> u32 \<Rightarrow> World \<Rightarrow> unit result" where
  "Transform_setConfiguration p type numKeys w =
     (case w_transforms w p of
        None \<Rightarrow> (Inl Undefined, w)
      | Some m \<Rightarrow>
         let numKeys' = max numKeys 2;
             m1 = m\<lparr>tr_type := type\<rparr>;
             m2 = (case type of
                     TransformType_MatrixMotion \<Rightarrow>
                       m1\<lparr>tr_data := Data_motion,
                          tr_options := (tr_options m1)\<lparr>mo_numKeys := ucast numKeys'\<rparr>\<rparr>
                   | TransformType_SRTMotion \<Rightarrow>
                       m1\<lparr>tr_data := Data_motion,
                          tr_options := (tr_options m1)\<lparr>mo_numKeys := ucast numKeys'\<rparr>\<rparr>
                   | TransformType_Static \<Rightarrow>
                       m1\<lparr>tr_data := Data_static
                            \<lparr>st_child = 0, st_transform = initialMatrix,
                             st_invTransform = initialMatrix\<rparr>\<rparr>
                   | TransformType_Invalid \<Rightarrow> m1)
         in (Inr (), w\<lparr>w_transforms := (w_transforms w)(p \<mapsto> Transform_Priv_markDirty m2)\<rparr>))"

subsection \<open>Instance\<close>

text \<open>
  The part of \<^verbatim>\<open>fillInstance\<close> and \<^verbatim>\<open>updateInstance\<close> that resolves the child:
  the error thrown, the handle of the child and the offset of its records, each as far as
  it has been obtained when the function ends or throws.
\<close>

definition Instance_resolveChild ::
  "World \<Rightarrow> Instance \<Rightarrow> error option \<times> u64 option \<times> u32 option" where
  "Instance_resolveChild w m =
     (case in_type m of
        ChildType_GAS \<Rightarrow>
          (case in_child m of
             None \<Rightarrow> (Some Undefined, None, None)
           | Some c \<Rightarrow>
              (case w_gass w c of
                 None \<Rightarrow> (Some Undefined, None, None)
               | Some childGas \<Rightarrow>
                  if \<not> GAS_Priv_isReady childGas
                  then (Some (RuntimeError ''GAS %s is not ready.''), None, None)
                  else
                    (case GAS_Priv_getHandle childGas of
                       Inl e \<Rightarrow> (Some e, None, None)
                     | Inr h \<Rightarrow>
                        (case Scene_getSBTOffset (w_scene w) c (in_matSetIndex m) of
                           Inl e \<Rightarrow> (Some e, Some h, None)
                         | Inr off \<Rightarrow> (None, Some h, Some off)))))
      | ChildType_IAS \<Rightarrow>
          (case in_child m of
             None \<Rightarrow> (Some Undefined, None, None)
           | Some c \<Rightarrow>
              (case w_iass w c of
                 None \<Rightarrow> (Some Undefined, None, None)
               | Some childIas \<Rightarrow>
                  if \<not> IAS_Priv_isReady childIas
                  then (Some (RuntimeError ''IAS %s is not ready.''), None, None)
                  else
                    (case IAS_Priv_getHandle childIas of
                       Inl e \<Rightarrow> (Some e, None, None)
                     | Inr h \<Rightarrow> (None, Some h, Some 0))))
      | ChildType_Transform \<Rightarrow>
          (case in_child m of
             None \<Rightarrow> (Some Undefined, None, None)
           | Some c \<Rightarrow>
              (case w_transforms w c of
                 None \<Rightarrow> (Some Undefined, None, None)
               | Some childXfm \<Rightarrow>
                  if \<not> Transform_Priv_isReady childXfm
                  then (Some (RuntimeError ''Transform %s is not ready.''), None, None)
                  else
                    (case Transform_Priv_getHandle childXfm of
                       Inl e \<Rightarrow> (Some e, None, None)
                     | Inr h \<Rightarrow>
                        (case Transform_getDescendantGAS (w_transforms w) c of
                           None \<Rightarrow> (Some Diverges, Some h, None)
                         | Some (Inl e) \<Rightarrow> (Some e, Some h, None)
                         | Some (Inr None) \<Rightarrow> (None, Some h, Some 0)
                         | Some (Inr (Some desGas)) \<Rightarrow>
                            (case Scene_getSBTOffset (w_scene w) desGas (in_matSetIndex m) of
                               Inl e \<Rightarrow> (Some e, Some h, None)
                             | Inr off \<Rightarrow> (None, Some h, Some off))))))
      | ChildType_Invalid \<Rightarrow> (None, None, None))"

text \<open>
  \<^verbatim>\<open>Instance::Priv::fillInstance(instance)\<close>: the error thrown and \<^verbatim>\<open>*instance\<close>
  as written so far.  The visibility mask and the flags are stored last.
\<close>

definition Instance_fillInstance :: "World \<Rightarrow> Instance \<Rightarrow> error option \<times> OptixInstance" where
  "Instance_fillInstance w m =
     (let i1 = OptixInstance_zero\<lparr>oi_transform := in_instTransform m, oi_instanceId := in_id m\<rparr>;
          (err, h, off) = Instance_resolveChild w m;
          i2 = i1\<lparr>oi_traversableHandle := (case h of None \<Rightarrow> oi_traversableHandle i1 | Some v \<Rightarrow> v),
                  oi_sbtOffset := (case off of None \<Rightarrow> oi_sbtOffset i1 | Some v \<Rightarrow> v)\<rparr>
      in (case err of
            Some e \<Rightarrow> (Some e, i2)
          | None \<Rightarrow> (None, i2\<lparr>oi_visibilityMask := in_visibilityMask m,
                               oi_flags := in_flags m\<rparr>)))"

text \<open>\<^verbatim>\<open>updateInstance\<close> does not store the handle of the child.\<close>

definition Instance_updateInstance ::
  "World \<Rightarrow> Instance \<Rightarrow> OptixInstance \<Rightarrow> error option \<times> OptixInstance" where
  "Instance_updateInstance w m instance =
     (let i1 = instance\<lparr>oi_transform := in_instTransform m, oi_instanceId := in_id m\<rparr>;
          (err, h, off) = Instance_resolveChild w m;
          i2 = i1\<lparr>oi_sbtOffset := (case off of None \<Rightarrow> oi_sbtOffset i1 | Some v \<Rightarrow> v)\<rparr>
      in (case err of
            Some e \<Rightarrow> (Some e, i2)
          | None \<Rightarrow> (None, i2\<lparr>oi_visibilityMask := in_visibilityMask m,
                               oi_flags := in_flags m\<rparr>)))"

subsection \<open>InstanceAccelerationStructure: public operations\<close>

definition IAS_setConfiguration ::
  "nat \<Rightarrow> ASTradeoff \<Rightarrow> bool \<Rightarrow> bool \<Rightarrow> World \<Rightarrow> unit result" where
  "IAS_setConfiguration p tradeoff allowUpdate allowCompaction w =
     (case w_iass w p of
        None \<Rightarrow> (Inl Undefined, w)
      | Some m \<Rightarrow>
         let changed = (ias_tradeoff m \<noteq> tradeoff \<or> ias_allowUpdate m \<noteq> allowUpdate
                        \<or> ias_allowCompaction m \<noteq> allowCompaction);
             m1 = m\<lparr>ias_tradeoff := tradeoff, ias_allowUpdate := allowUpdate,
                     ias_allowCompaction := allowCompaction\<rparr>;
             m2 = (if changed then IAS_Priv_markDirty m1 else m1)
         in (Inr (), w\<lparr>w_iass := (w_iass w)(p \<mapsto> m2)\<rparr>))"

definition IAS_setMotionOptions ::
  "nat \<Rightarrow> u32 \<Rightarrow> float32 \<Rightarrow> float32 \<Rightarrow> u32 \<Rightarrow> World \<Rightarrow> unit result" where
  "IAS_setMotionOptions p numKeys timeBegin timeEnd flags w =
     (case w_iass w p of
        None \<Rightarrow> (Inl Undefined, w)
      | Some m \<Rightarrow>
         let m' = m\<lparr>ias_buildOptions := (ias_buildOptions m)\<lparr>motionOptions :=
                      \<lparr>mo_numKeys = ucast numKeys, mo_flags = ucast flags,
                       mo_timeBegin = timeBegin, mo_timeEnd = timeEnd\<rparr>\<rparr>\<rparr>
         in (Inr (), w\<lparr>w_iass := (w_iass w)(p \<mapsto> IAS_Priv_markDirty m')\<rparr>))"

definition IAS_addChild :: "nat \<Rightarrow> nat option \<Rightarrow> World \<Rightarrow> unit result" where
  "IAS_addChild p instance w =
     (case w_iass w p of
        None \<Rightarrow> (Inl Undefined, w)
      | Some m \<Rightarrow>
         (case instance of
            None \<Rightarrow> (Inl (RuntimeError ''Invalid instance %p.''), w)
          | Some i \<Rightarrow>
             (case w_instances w i of
                None \<Rightarrow> (Inl Undefined, w)
              | Some inst \<Rightarrow>
                 if in_scene inst \<noteq> w_scenePtr w
                 then (Inl (RuntimeError ''Scene mismatch for the given instance %s.''), w)
                 else if i \<in> set (ias_children m)
                 then (Inl (RuntimeError ''Instance %s has been already added.''), w)
                 else
                   let m' = m\<lparr>ias_children := ias_children m @ [i]\<rparr>
                   in (Inr (), w\<lparr>w_iass := (w_iass w)(p \<mapsto> IAS_Priv_markDirty m')\<rparr>))))"

definition IAS_removeChild :: "nat \<Rightarrow> nat option \<Rightarrow> World \<Rightarrow> unit result" where
  "IAS_removeChild p instance w =
     (case w_iass w p of
        None \<Rightarrow> (Inl Undefined, w)
      | Some m \<Rightarrow>
         (case instance of
            None \<Rightarrow> (Inl (RuntimeError ''Invalid instance %p.''), w)
          | Some i \<Rightarrow>
             (case w_instances w i of
                None \<Rightarrow> (Inl Undefined, w)
              | Some inst \<Rightarrow>
                 if in_scene inst \<noteq> w_scenePtr w
                 then (Inl (RuntimeError ''Scene mismatch for the given instance %s.''), w)
                 else if i \<notin> set (ias_children m)
                 then (Inl (RuntimeError ''Instance %s has not been added.''), w)
                 else
                   let m' = m\<lparr>ias_children := remove1 i (ias_children m)\<rparr>
                   in (Inr (), w\<lparr>w_iass := (w_iass w)(p \<mapsto> IAS_Priv_markDirty m')\<rparr>))))"

definition IAS_markDirty :: "nat \<Rightarrow> World \<Rightarrow> unit result" where
  "IAS_markDirty p w =
     (case w_iass w p of
        None \<Rightarrow> (Inl Undefined, w)
      | Some m \<Rightarrow> (Inr (), w\<lparr>w_iass := (w_iass w)(p \<mapsto> IAS_Priv_markDirty m)\<rparr>))"

fun IAS_fillInstancesLoop ::
  "World \<Rightarrow> nat list \<Rightarrow> nat \<Rightarrow> OptixInstance list \<Rightarrow> error option \<times> OptixInstance list" where
  "IAS_fillInstancesLoop w [] childIdx insts = (None, insts)"
| "IAS_fillInstancesLoop w (child # rest) childIdx insts =
     (case w_instances w child of
        None \<Rightarrow> (Some Undefined, insts)
      | Some inst \<Rightarrow>
         if \<not> childIdx < length insts then (Some Undefined, insts)
         else
           let (err, oi) = Instance_fillInstance w inst;
               insts' = insts[childIdx := oi]
           in (case err of
                 Some e \<Rightarrow> (Some e, insts')
               | None \<Rightarrow> IAS_fillInstancesLoop w rest (Suc childIdx) insts'))"

fun IAS_updateInstancesLoop ::
  "World \<Rightarrow> nat list \<Rightarrow> nat \<Rightarrow> OptixInstance list \<Rightarrow> error option \<times> OptixInstance list" where
  "IAS_updateInstancesLoop w [] childIdx insts = (None, insts)"
| "IAS_updateInstancesLoop w (child # rest) childIdx insts =
     (case w_instances w child of
        None \<Rightarrow> (Some Undefined, insts)
      | Some inst \<Rightarrow>
         if \<not> childIdx < length insts then (Some Undefined, insts)
         else
           let (err, oi) = Instance_updateInstance w inst (insts ! childIdx);
               insts' = insts[childIdx := oi]
           in (case err of
                 Some e \<Rightarrow> (Some e, insts')
               | None \<Rightarrow> IAS_updateInstancesLoop w rest (Suc childIdx) insts'))"

definition IAS_buildFlags :: "IAS \<Rightarrow> u32" where
  "IAS_buildFlags m =
     (let f0 = (0 :: u32);
          f1 = (if ias_tradeoff m = PreferFastTrace then f0 OR OPTIX_BUILD_FLAG_PREFER_FAST_TRACE
                else if ias_tradeoff m = PreferFastBuild
                  then f0 OR OPTIX_BUILD_FLAG_PREFER_FAST_BUILD
                else f0)
      in f1 OR ((if ias_allowUpdate m then OPTIX_BUILD_FLAG_ALLOW_UPDATE else 0)
                OR (if ias_allowCompaction m then OPTIX_BUILD_FLAG_ALLOW_COMPACTION else 0)))"

text \<open>
  \<^verbatim>\<open>prepareForBuild(memoryRequirement, numInstances)\<close>.  The calls of
  \<^verbatim>\<open>isTransform\<close> and \<^verbatim>\<open>isMotionAS\<close> in the loop have no effect and their results
  are not used.
\<close>

definition IAS_prepareForBuild ::
  "nat \<Rightarrow> OptixAccelBufferSizes option \<Rightarrow> World \<Rightarrow> (OptixAccelBufferSizes \<times> u32) result" where
  "IAS_prepareForBuild p memUsage w =
     (case w_iass w p of
        None \<Rightarrow> (Inl Undefined, w)
      | Some m \<Rightarrow>
         if \<not> sc_sbtLayoutIsUpToDate (w_scene w)
         then (Inl (RuntimeError ''Shader binding table layout generation has not been done.''), w)
         else
           let insts0 = resize (length (ias_children m)) OptixInstance_zero (ias_instances m);
               (err, insts) = IAS_fillInstancesLoop w (ias_children m) 0 insts0;
               m1 = m\<lparr>ias_instances := insts\<rparr>
           in (case err of
                 Some e \<Rightarrow> (Inl e, w\<lparr>w_iass := (w_iass w)(p \<mapsto> m1)\<rparr>)
               | None \<Rightarrow>
                  let m2 = m1\<lparr>ias_buildInput := BuildInput_instances
                                 \<lparr>inst_instances = 0,
                                  inst_numInstances = of_nat (length (ias_children m1))\<rparr>\<rparr>;
                      m3 = m2\<lparr>ias_buildOptions := (ias_buildOptions m2)
                                \<lparr>operation := OPTIX_BUILD_OPERATION_BUILD,
                                 buildFlags := IAS_buildFlags m2\<rparr>\<rparr>
                  in (case memUsage of
                        None \<Rightarrow> (Inl BackendError, w\<lparr>w_iass := (w_iass w)(p \<mapsto> m3)\<rparr>)
                      | Some req \<Rightarrow>
                         let m4 = m3\<lparr>ias_memoryRequirement := req, ias_readyToBuild := True\<rparr>
                         in (Inr (req, of_nat (length (ias_instances m4))),
                             w\<lparr>w_iass := (w_iass w)(p \<mapsto> m4)\<rparr>))))"

text \<open>
  \<^verbatim>\<open>rebuild\<close>; \<open>copied\<close> tells whether \<^verbatim>\<open>cuMemcpyHtoDAsync\<close> succeeds.  Storing
  the device pointer of the instances into a build input that is not the instance array
  of \<^verbatim>\<open>prepareForBuild\<close> is outside the model.
\<close>

definition IAS_rebuild ::
  "nat \<Rightarrow> BufferView \<Rightarrow> BufferView \<Rightarrow> BufferView \<Rightarrow> bool \<Rightarrow> u64 option \<Rightarrow> bool \<Rightarrow> World
     \<Rightarrow> u64 result" where
  "IAS_rebuild p instanceBuffer accelBuffer scratchBuffer copied built recorded w =
     (case w_iass w p of
        None \<Rightarrow> (Inl Undefined, w)
      | Some m \<Rightarrow>
         if \<not> ias_readyToBuild m
         then (Inl (RuntimeError ''You need to call prepareForBuild() before rebuild.''), w)
         else if \<not> outputSizeInBytes (ias_memoryRequirement m) \<le> sizeInBytes accelBuffer
         then (Inl (RuntimeError ''Size of the given buffer is not enough.''), w)
         else if \<not> tempSizeInBytes (ias_memoryRequirement m) \<le> sizeInBytes scratchBuffer
         then (Inl (RuntimeError ''Size of the given scratch buffer is not enough.''), w)
         else if \<not> of_nat (length (ias_instances m)) * sizeof_OptixInstance
                    \<le> sizeInBytes instanceBuffer
         then (Inl (RuntimeError ''Size of the given instance buffer is not enough.''), w)
         else
           let (err, insts) = IAS_updateInstancesLoop w (ias_children m) 0 (ias_instances m);
               m1 = m\<lparr>ias_instances := insts\<rparr>
           in (case err of
                 Some e \<Rightarrow> (Inl e, w\<lparr>w_iass := (w_iass w)(p \<mapsto> m1)\<rparr>)
               | None \<Rightarrow>
                  if \<not> copied then (Inl BackendError, w\<lparr>w_iass := (w_iass w)(p \<mapsto> m1)\<rparr>)
                  else
                    (case ias_buildInput m1 of
                       BuildInput_instances instArray \<Rightarrow>
                         let m2 = m1\<lparr>ias_buildInput := BuildInput_instances
                                        (instArray\<lparr>inst_instances := getCUdeviceptr instanceBuffer\<rparr>)\<rparr>;
                             m3 = m2\<lparr>ias_buildOptions := (ias_buildOptions m2)
                                       \<lparr>operation := OPTIX_BUILD_OPERATION_BUILD\<rparr>\<rparr>
                         in (case built of
                               None \<Rightarrow> (Inl BackendError, w\<lparr>w_iass := (w_iass w)(p \<mapsto> m3)\<rparr>)
                             | Some h \<Rightarrow>
                                let m4 = m3\<lparr>ias_handle := h\<rparr>
                                in if \<not> recorded
                                   then (Inl BackendError, w\<lparr>w_iass := (w_iass w)(p \<mapsto> m4)\<rparr>)
                                   else
                                     let m5 = m4\<lparr>ias_instanceBuffer := instanceBuffer,
                                                 ias_accelBuffer := accelBuffer,
                                                 ias_available := True,
                                                 ias_readyToCompact := False,
                                                 ias_compactedHandle := 0,
                                                 ias_compactedAvailable := False\<rparr>
                                     in (Inr (ias_handle m5),
                                         w\<lparr>w_iass := (w_iass w)(p \<mapsto> m5)\<rparr>))
                     | _ \<Rightarrow> (Inl Undefined, w\<lparr>w_iass := (w_iass w)(p \<mapsto> m1)\<rparr>))))"

definition IAS_prepareForCompact ::
  "nat \<Rightarrow> bool \<Rightarrow> u64 option \<Rightarrow> World \<Rightarrow> u64 option result" where
  "IAS_prepareForCompact p synced readBack w =
     (case w_iass w p of
        None \<Rightarrow> (Inl Undefined, w)
      | Some m \<Rightarrow>
         let compactionEnabled =
               (buildFlags (ias_buildOptions m) AND OPTIX_BUILD_FLAG_ALLOW_COMPACTION \<noteq> 0)
         in if \<not> compactionEnabled
            then (Inl (RuntimeError ''This AS does not allow compaction.''), w)
            else if \<not> ias_available m
            then (Inl (RuntimeError ''Uncompacted AS has not been built yet.''), w)
            else if ias_compactedAvailable m then (Inr None, w)
            else if \<not> synced then (Inl BackendError, w)
            else
              (case readBack of
                 None \<Rightarrow> (Inl BackendError, w)
               | Some sz \<Rightarrow>
                  let m' = m\<lparr>ias_compactedSize := sz, ias_readyToCompact := True\<rparr>
                  in (Inr (Some sz), w\<lparr>w_iass := (w_iass w)(p \<mapsto> m')\<rparr>)))"

definition IAS_compact ::
  "nat \<Rightarrow> BufferView \<Rightarrow> u64 option \<Rightarrow> bool \<Rightarrow> World \<Rightarrow> u64 result" where
  "IAS_compact p compactedAccelBuffer compacted recorded w =
     (case w_iass w p of
        None \<Rightarrow> (Inl Undefined, w)
      | Some m \<Rightarrow>
         let compactionEnabled =
               (buildFlags (ias_buildOptions m) AND OPTIX_BUILD_FLAG_ALLOW_COMPACTION \<noteq> 0)
         in if \<not> compactionEnabled
            then (Inl (RuntimeError ''This AS does not allow compaction.''), w)
            else if \<not> ias_readyToCompact m
            then (Inl (RuntimeError ''You need to call prepareForCompact() before compaction.''), w)
            else if \<not> ias_available m
            then (Inl (RuntimeError ''Uncompacted AS has not been built yet.''), w)
            else if \<not> ias_compactedSize m \<le> sizeInBytes compactedAccelBuffer
            then (Inl (RuntimeError ''Size of the given buffer is not enough.''), w)
            else
              (case compacted of
                 None \<Rightarrow> (Inl BackendError, w)
               | Some h \<Rightarrow>
                  let m1 = m\<lparr>ias_compactedHandle := h\<rparr>
                  in if \<not> recorded
                     then (Inl BackendError, w\<lparr>w_iass := (w_iass w)(p \<mapsto> m1)\<rparr>)
                     else
                       let m2 = m1\<lparr>ias_compactedAccelBuffer := compactedAccelBuffer,
                                   ias_compactedAvailable := True\<rparr>
                       in (Inr (ias_compactedHandle m2),
                           w\<lparr>w_iass := (w_iass w)(p \<mapsto> m2)\<rparr>)))"

definition IAS_removeUncompacted :: "nat \<Rightarrow> bool \<Rightarrow> World \<Rightarrow> unit result" where
  "IAS_removeUncompacted p synced w =
     (case w_iass w p of
        None \<Rightarrow> (Inl Undefined, w)
      | Some m \<Rightarrow>
         let compactionEnabled =
               (buildFlags (ias_buildOptions m) AND OPTIX_BUILD_FLAG_ALLOW_COMPACTION \<noteq> 0)
         in if \<not> ias_compactedAvailable m \<or> \<not> compactionEnabled then (Inr (), w)
            else if \<not> synced then (Inl BackendError, w)
            else (Inr (), w\<lparr>w_iass := (w_iass w)(p \<mapsto>
                            m\<lparr>ias_handle := 0, ias_available := False\<rparr>)\<rparr>))"

definition IAS_update ::
  "nat \<Rightarrow> BufferView \<Rightarrow> bool \<Rightarrow> u64 option \<Rightarrow> World \<Rightarrow> unit result" where
  "IAS_update p scratchBuffer copied built w =
     (case w_iass w p of
        None \<Rightarrow> (Inl Undefined, w)
      | Some m \<Rightarrow>
         let updateEnabled =
               (buildFlags (ias_buildOptions m) AND OPTIX_BUILD_FLAG_ALLOW_UPDATE \<noteq> 0)
         in if \<not> updateEnabled
            then (Inl (RuntimeError ''This AS does not allow update.''), w)
            else if \<not> (ias_available m \<or> ias_compactedAvailable m)
            then (Inl (RuntimeError ''AS has not been built yet.''), w)
            else if \<not> tempUpdateSizeInBytes (ias_memoryRequirement m) \<le> sizeInBytes scratchBuffer
            then (Inl (RuntimeError ''Size of the given scratch buffer is not enough.''), w)
            else
              let (err, insts) = IAS_updateInstancesLoop w (ias_children m) 0 (ias_instances m);
                  m1 = m\<lparr>ias_instances := insts\<rparr>
              in (case err of
                    Some e \<Rightarrow> (Inl e, w\<lparr>w_iass := (w_iass w)(p \<mapsto> m1)\<rparr>)
                  | None \<Rightarrow>
                     if \<not> copied then (Inl BackendError, w\<lparr>w_iass := (w_iass w)(p \<mapsto> m1)\<rparr>)
                     else
                       let m2 = m1\<lparr>ias_buildOptions := (ias_buildOptions m1)
                                     \<lparr>operation := OPTIX_BUILD_OPERATION_UPDATE\<rparr>\<rparr>;
                           w' = w\<lparr>w_iass := (w_iass w)(p \<mapsto> m2)\<rparr>
                       in (case built of
                             None \<Rightarrow> (Inl BackendError, w')
                           | Some tempHandle \<Rightarrow> (Inr (), w'))))"


subsection \<open>GeometryInstance: public operations\<close>

definition GeometryInstance_setNumMaterials ::
  "nat \<Rightarrow> u32 \<Rightarrow> BufferView \<Rightarrow> u32 \<Rightarrow> World \<Rightarrow> unit result" where
  "GeometryInstance_setNumMaterials p numMaterials matIndexOffsetBuffer indexOffsetSize w =
     (case w_geomInsts w p of
        None \<Rightarrow> (Inl Undefined, w)
      | Some m \<Rightarrow>
         if \<not> 0 < numMaterials
         then (Inl (RuntimeError ''Invalid number of materials %u.''), w)
         else if \<not> ((numMaterials = 1) \<noteq> isValid matIndexOffsetBuffer)
         then (Inl (RuntimeError ''Material index offset buffer must be provided when multiple materials are used.''), w)
         else if \<not> (1 \<le> indexOffsetSize \<and> indexOffsetSize \<le> 4)
         then (Inl (RuntimeError ''Invalid index offset size.''), w)
         else if isValid matIndexOffsetBuffer \<and> \<not> indexOffsetSize \<le> stride matIndexOffsetBuffer
         then (Inl (RuntimeError ''Buffer's stride is smaller than the given index offset size.''), w)
         else
           let m' = m\<lparr>gi_buildInputFlags :=
                        resize (unat numMaterials) OPTIX_GEOMETRY_FLAG_NONE (gi_buildInputFlags m),
                      gi_materialIndexOffsetBuffer := matIndexOffsetBuffer,
                      gi_materialIndexOffsetSize := indexOffsetSize,
                      gi_materials := resize (unat numMaterials) [None] (gi_materials m)\<rparr>
           in (Inr (), w\<lparr>w_geomInsts := (w_geomInsts w)(p \<mapsto> m')\<rparr>))"

definition GeometryInstance_setMaterial ::
  "nat \<Rightarrow> u32 \<Rightarrow> u32 \<Rightarrow> nat option \<Rightarrow> World \<Rightarrow> unit result" where
  "GeometryInstance_setMaterial p matSetIdx matIdx mat w =
     (case w_geomInsts w p of
        None \<Rightarrow> (Inl Undefined, w)
      | Some m \<Rightarrow>
         if \<not> unat matIdx < length (gi_materials m)
         then (Inl (RuntimeError ''Out of material bounds [0, %u).''), w)
         else
           let slot = gi_materials m ! unat matIdx;
               prevNumMatSets = (of_nat (length slot) :: u32);
               slot' = (if prevNumMatSets \<le> matSetIdx
                        then resize (unat (matSetIdx + 1)) None slot else slot)
           in if \<not> unat matSetIdx < length slot' then (Inl Undefined, w)
              else
                let m' = m\<lparr>gi_materials :=
                             (gi_materials m)[unat matIdx := slot'[unat matSetIdx := mat]]\<rparr>
                in (Inr (), w\<lparr>w_geomInsts := (w_geomInsts w)(p \<mapsto> m')\<rparr>))"

definition GeometryInstance_setUserData :: "nat \<Rightarrow> u32 \<Rightarrow> u32 \<Rightarrow> World \<Rightarrow> unit result" where
  "GeometryInstance_setUserData p sz algn w =
     (case w_geomInsts w p of
        None \<Rightarrow> (Inl Undefined, w)
      | Some m \<Rightarrow>
         if \<not> sz \<le> s_maxGeometryInstanceUserDataSize
         then (Inl (RuntimeError ''Maximum user data size for Material is %u bytes.''), w)
         else if \<not> (0 < algn \<and> algn \<le> OPTIX_SBT_RECORD_ALIGNMENT)
         then (Inl (RuntimeError ''Valid alignment range is [1, %u].''), w)
         else (Inr (), w\<lparr>w_geomInsts := (w_geomInsts w)(p \<mapsto>
                         m\<lparr>gi_userDataSizeAlign := \<lparr>size_sa = sz, alignment = algn\<rparr>\<rparr>)\<rparr>))"

subsection \<open>Creation\<close>

text \<open>
  The constructors of \<^verbatim>\<open>GeometryAccelerationStructure::Priv\<close> and
  \<^verbatim>\<open>InstanceAccelerationStructure::Priv\<close> at the address \<open>p\<close> that \<^verbatim>\<open>new\<close> returns,
  which holds no object yet.  The constructors leave the build options, the memory
  requirement, the compacted size and (for an IAS) the build input uninitialised: their
  values are arguments.  The constructor registers the object in the set of the scene; an
  unordered set places a new element where it likes, the model at the end.
\<close>

definition GAS_Priv_new ::
  "bool \<Rightarrow> OptixAccelBuildOptions \<Rightarrow> OptixAccelBufferSizes \<Rightarrow> u64 \<Rightarrow> GAS" where
  "GAS_Priv_new forCustomPrimitives opts req csize =
     \<lparr>gas_userDataSizeAlign = SizeAlign_default,
      gas_numRayTypesPerMaterialSet = [],
      gas_children = [],
      gas_buildInputs = [],
      gas_buildOptions = opts,
      gas_memoryRequirement = req,
      gas_compactedSize = csize,
      gas_handle = 0,
      gas_compactedHandle = 0,
      gas_accelBuffer = BufferView_default,
      gas_compactedAccelBuffer = BufferView_default,
      gas_tradeoff = Default,
      gas_forCustomPrimitives = forCustomPrimitives,
      gas_allowUpdate = False,
      gas_allowCompaction = False,
      gas_allowRandomVertexAccess = False,
      gas_readyToBuild = False,
      gas_available = False,
      gas_readyToCompact = False,
      gas_compactedAvailable = False\<rparr>"

definition Scene_createGeometryAccelerationStructure ::
  "nat \<Rightarrow> bool \<Rightarrow> OptixAccelBuildOptions \<Rightarrow> OptixAccelBufferSizes \<Rightarrow> u64 \<Rightarrow> World \<Rightarrow> unit result" where
  "Scene_createGeometryAccelerationStructure p forCustomPrimitives opts req csize w =
     (if w_gass w p \<noteq> None \<or> p \<in> set (sc_geomASs (w_scene w)) then (Inl Undefined, w)
      else (Inr (), w\<lparr>w_gass := (w_gass w)(p \<mapsto> GAS_Priv_new forCustomPrimitives opts req csize),
                      w_scene := (w_scene w)\<lparr>sc_geomASs := sc_geomASs (w_scene w) @ [p]\<rparr>\<rparr>))"

definition IAS_Priv_new ::
  "OptixAccelBuildOptions \<Rightarrow> OptixAccelBufferSizes \<Rightarrow> u64 \<Rightarrow> OptixBuildInput \<Rightarrow> IAS" where
  "IAS_Priv_new opts req csize input =
     \<lparr>ias_children = [],
      ias_buildInput = input,
      ias_instances = [],
      ias_buildOptions = opts,
      ias_memoryRequirement = req,
      ias_compactedSize = csize,
      ias_handle = 0,
      ias_compactedHandle = 0,
      ias_instanceBuffer = BufferView_default,
      ias_accelBuffer = BufferView_default,
      ias_compactedAccelBuffer = BufferView_default,
      ias_tradeoff = Default,
      ias_allowUpdate = False,
      ias_allowCompaction = False,
      ias_readyToBuild = False,
      ias_available = False,
      ias_readyToCompact = False,
      ias_compactedAvailable = False\<rparr>"

definition Scene_createInstanceAccelerationStructure ::
  "nat \<Rightarrow> OptixAccelBuildOptions \<Rightarrow> OptixAccelBufferSizes \<Rightarrow> u64 \<Rightarrow> OptixBuildInput \<Rightarrow> World
     \<Rightarrow> unit result" where
  "Scene_createInstanceAccelerationStructure p opts req csize input w =
     (if w_iass w p \<noteq> None \<or> p \<in> set (sc_instASs (w_scene w)) then (Inl Undefined, w)
      else (Inr (), w\<lparr>w_iass := (w_iass w)(p \<mapsto> IAS_Priv_new opts req csize input),
                      w_scene := (w_scene w)\<lparr>sc_instASs := sc_instASs (w_scene w) @ [p]\<rparr>\<rparr>))"

text \<open>
  The constructor of \<^verbatim>\<open>GeometryInstance::Priv\<close> for the scene at address \<open>s\<close>: one
  motion step, whose buffer is not set, and no material slot.  Only the buffers of the
  primitive kind of the instance are used.
\<close>

definition GeometryInstance_Priv_new :: "nat \<Rightarrow> bool \<Rightarrow> GeometryInstance" where
  "GeometryInstance_Priv_new s forCustomPrimitives =
     \<lparr>gi_scene = s,
      gi_userDataSizeAlign = SizeAlign_default,
      gi_numMotionSteps = 1,
      gi_vertexBuffers = [BufferView_default],
      gi_vertexBufferArray = [0],
      gi_primitiveAabbBuffers = [BufferView_default],
      gi_primitiveAabbBufferArray = [0],
      gi_triangleBuffer = BufferView_default,
      gi_vertexFormat = 0,
      gi_indexFormat = OPTIX_INDICES_FORMAT_NONE,
      gi_primitiveIndexOffset = 0,
      gi_materialIndexOffsetSize = 0,
      gi_materialIndexOffsetBuffer = BufferView_default,
      gi_buildInputFlags = [],
      gi_materials = [],
      gi_forCustomPrimitives = forCustomPrimitives\<rparr>"

text \<open>\<^verbatim>\<open>Material::Priv(ctxt)\<close>: no user data, no hit group.\<close>

definition Material_Priv_new :: Material where
  "Material_Priv_new = \<lparr>mat_userDataSizeAlign = SizeAlign_default, mat_programs = Map.empty\<rparr>"

text \<open>\<^verbatim>\<open>Transform::Priv(scene)\<close> and \<^verbatim>\<open>Scene::createTransform\<close>.\<close>

definition Transform_Priv_new :: Transform where
  "Transform_Priv_new =
     \<lparr>tr_childType = ChildType_Invalid, tr_child = None, tr_type = TransformType_Invalid,
      tr_data = Data_null,
      tr_options = \<lparr>mo_numKeys = 2, mo_flags = 0, mo_timeBegin = Finite 0, mo_timeEnd = Finite 0\<rparr>,
      tr_handle = 0, tr_available = False\<rparr>"

definition Scene_createTransform :: "nat \<Rightarrow> World \<Rightarrow> unit result" where
  "Scene_createTransform p w =
     (if w_transforms w p \<noteq> None \<or> p \<in> set (sc_transforms (w_scene w)) then (Inl Undefined, w)
      else (Inr (), w\<lparr>w_transforms := (w_transforms w)(p \<mapsto> Transform_Priv_new),
                      w_scene := (w_scene w)\<lparr>sc_transforms := sc_transforms (w_scene w) @ [p]\<rparr>\<rparr>))"

text \<open>\<^verbatim>\<open>Context::createScene\<close>: the scene at address \<open>s\<close>, with nothing created yet.\<close>

definition Context_createScene :: "nat \<Rightarrow> World" where
  "Context_createScene s =
     \<lparr>w_scenePtr = s,
      w_scene = \<lparr>sc_geomASs = [], sc_sbtOffsets = Map.empty,
                 sc_singleRecordSize = OPTIX_SBT_RECORD_HEADER_SIZE, sc_numSBTRecords = 0,
                 sc_transforms = [], sc_instASs = [], sc_sbtLayoutIsUpToDate = False\<rparr>,
      w_materials = Map.empty, w_geomInsts = Map.empty, w_gass = Map.empty,
      w_transforms = Map.empty, w_instances = Map.empty, w_iass = Map.empty\<rparr>"


section \<open>Sequences of operations\<close>

text \<open>
  The public operations on the acceleration structures and the scene, and some of those
  on geometry instances and transforms.  The operations on materials, geometry instances,
  transforms and instances write only the object they are called on; \<open>Put\<close> stands
  for any of them (and for the creation of the object): it stores an arbitrary value of
  the object.
\<close>

datatype Op =
    CreateGAS nat bool OptixAccelBuildOptions OptixAccelBufferSizes u64
  | GasSetConfiguration nat ASTradeoff bool bool bool
  | GasSetMotionOptions nat u32 float32 float32 u32
  | GasAddChild nat "nat option" u64
  | GasRemoveChild nat "nat option" u64
  | GasMarkDirty nat
  | GasSetNumMaterialSets nat u32
  | GasSetNumRayTypes nat u32 u32
  | GasPrepareForBuild nat "OptixAccelBufferSizes option"
  | GasRebuild nat BufferView BufferView "u64 option" bool
  | GasPrepareForCompact nat bool "u64 option"
  | GasCompact nat BufferView "u64 option" bool
  | GasRemoveUncompacted nat bool
  | GasUpdate nat BufferView "u64 option"
  | GasSetUserData nat u32 u32
  | CreateIAS nat OptixAccelBuildOptions OptixAccelBufferSizes u64 OptixBuildInput
  | IasSetConfiguration nat ASTradeoff bool bool
  | IasSetMotionOptions nat u32 float32 float32 u32
  | IasAddChild nat "nat option"
  | IasRemoveChild nat "nat option"
  | IasMarkDirty nat
  | IasPrepareForBuild nat "OptixAccelBufferSizes option"
  | IasRebuild nat BufferView BufferView BufferView bool "u64 option" bool
  | IasPrepareForCompact nat bool "u64 option"
  | IasCompact nat BufferView "u64 option" bool
  | IasRemoveUncompacted nat bool
  | IasUpdate nat BufferView bool "u64 option"
  | GenerateShaderBindingTableLayout
  | GiSetNumMaterials nat u32 BufferView u32
  | GiSetMaterial nat u32 u32 "nat option"
  | GiSetUserData nat u32 u32
  | CreateTransform nat
  | TrSetConfiguration nat TransformType u32
  | TrSetStaticTransform nat "float32 list"
  | PutMaterial nat Material
  | PutGeometryInstance nat GeometryInstance
  | PutTransform nat Transform
  | PutInstance nat Instance

text \<open>The error a call has thrown, if any, and the state it left.\<close>

definition outcome :: "'a result \<Rightarrow> error option \<times> World" where
  "outcome r = (case fst r of Inl e \<Rightarrow> (Some e, snd r) | Inr v \<Rightarrow> (None, snd r))"

fun apply_op :: "Op \<Rightarrow> World \<Rightarrow> error option \<times> World" where
  "apply_op (CreateGAS p c opts req cs) w =
     outcome (Scene_createGeometryAccelerationStructure p c opts req cs w)"
| "apply_op (GasSetConfiguration p t u c r) w = outcome (GAS_setConfiguration p t u c r w)"
| "apply_op (GasSetMotionOptions p n b e f) w = outcome (GAS_setMotionOptions p n b e f w)"
| "apply_op (GasAddChild p g t) w = outcome (GAS_addChild p g t w)"
| "apply_op (GasRemoveChild p g t) w = outcome (GAS_removeChild p g t w)"
| "apply_op (GasMarkDirty p) w = outcome (GAS_markDirty p w)"
| "apply_op (GasSetNumMaterialSets p n) w = outcome (GAS_setNumMaterialSets p n w)"
| "apply_op (GasSetNumRayTypes p i n) w = outcome (GAS_setNumRayTypes p i n w)"
| "apply_op (GasPrepareForBuild p mu) w = outcome (GAS_prepareForBuild p mu w)"
| "apply_op (GasRebuild p ab sb built recorded) w = outcome (GAS_rebuild p ab sb built recorded w)"
| "apply_op (GasPrepareForCompact p synced rb) w = outcome (GAS_prepareForCompact p synced rb w)"
| "apply_op (GasCompact p cb compacted recorded) w = outcome (GAS_compact p cb compacted recorded w)"
| "apply_op (GasRemoveUncompacted p synced) w = outcome (GAS_removeUncompacted p synced w)"
| "apply_op (GasUpdate p sb built) w = outcome (GAS_update p sb built w)"
| "apply_op (GasSetUserData p sz al) w = outcome (GAS_setUserData p sz al w)"
| "apply_op (CreateIAS p opts req cs bi) w =
     outcome (Scene_createInstanceAccelerationStructure p opts req cs bi w)"
| "apply_op (IasSetConfiguration p t u c) w = outcome (IAS_setConfiguration p t u c w)"
| "apply_op (IasSetMotionOptions p n b e f) w = outcome (IAS_setMotionOptions p n b e f w)"
| "apply_op (IasAddChild p i) w = outcome (IAS_addChild p i w)"
| "apply_op (IasRemoveChild p i) w = outcome (IAS_removeChild p i w)"
| "apply_op (IasMarkDirty p) w = outcome (IAS_markDirty p w)"
| "apply_op (IasPrepareForBuild p mu) w = outcome (IAS_prepareForBuild p mu w)"
| "apply_op (IasRebuild p ib ab sb copied built recorded) w =
     outcome (IAS_rebuild p ib ab sb copied built recorded w)"
| "apply_op (IasPrepareForCompact p synced rb) w = outcome (IAS_prepareForCompact p synced rb w)"
| "apply_op (IasCompact p cb compacted recorded) w = outcome (IAS_compact p cb compacted recorded w)"
| "apply_op (IasRemoveUncompacted p synced) w = outcome (IAS_removeUncompacted p synced w)"
| "apply_op (IasUpdate p sb copied built) w = outcome (IAS_update p sb copied built w)"
| "apply_op GenerateShaderBindingTableLayout w = outcome (Scene_generateShaderBindingTableLayout w)"
| "apply_op (GiSetNumMaterials p n b sz) w = outcome (GeometryInstance_setNumMaterials p n b sz w)"
| "apply_op (GiSetMaterial p ms mi mat) w = outcome (GeometryInstance_setMaterial p ms mi mat w)"
| "apply_op (GiSetUserData p sz al) w = outcome (GeometryInstance_setUserData p sz al w)"
| "apply_op (CreateTransform p) w = outcome (Scene_createTransform p w)"
| "apply_op (TrSetConfiguration p t n) w = outcome (Transform_setConfiguration p t n w)"
| "apply_op (TrSetStaticTransform p mx) w = outcome (Transform_setStaticTransform p mx w)"
| "apply_op (PutMaterial p m) w = (None, w\<lparr>w_materials := (w_materials w)(p \<mapsto> m)\<rparr>)"
| "apply_op (PutGeometryInstance p m) w = (None, w\<lparr>w_geomInsts := (w_geomInsts w)(p \<mapsto> m)\<rparr>)"
| "apply_op (PutTransform p m) w = (None, w\<lparr>w_transforms := (w_transforms w)(p \<mapsto> m)\<rparr>)"
| "apply_op (PutInstance p m) w = (None, w\<lparr>w_instances := (w_instances w)(p \<mapsto> m)\<rparr>)"

text \<open>
  A run keeps, beside the state, the acceleration structures for which
  \<^verbatim>\<open>prepareForCompact\<close> has returned normally since their last \<^verbatim>\<open>rebuild\<close> that
  returned normally: those prepared for compaction in the current build cycle.
\<close>

record Run =
  run_world :: World
  run_gasPrepared :: "nat set"
  run_iasPrepared :: "nat set"

fun prepared_after :: "Op \<Rightarrow> bool \<Rightarrow> Run \<Rightarrow> nat set \<times> nat set" where
  "prepared_after (GasRebuild p ab sb built recorded) ok r =
     ((if ok then run_gasPrepared r - {p} else run_gasPrepared r), run_iasPrepared r)"
| "prepared_after (GasPrepareForCompact p synced rb) ok r =
     ((if ok then insert p (run_gasPrepared r) else run_gasPrepared r), run_iasPrepared r)"
| "prepared_after (IasRebuild p ib ab sb copied built recorded) ok r =
     (run_gasPrepared r, (if ok then run_iasPrepared r - {p} else run_iasPrepared r))"
| "prepared_after (IasPrepareForCompact p synced rb) ok r =
     (run_gasPrepared r, (if ok then insert p (run_iasPrepared r) else run_iasPrepared r))"
| "prepared_after _ ok r = (run_gasPrepared r, run_iasPrepared r)"

definition step :: "Run \<Rightarrow> Op \<Rightarrow> Run" where
  "step r op =
     (let (err, w') = apply_op op (run_world r);
          (pg, pi) = prepared_after op (err = None) r
      in \<lparr>run_world = w', run_gasPrepared = pg, run_iasPrepared = pi\<rparr>)"

definition run :: "nat \<Rightarrow> Op list \<Rightarrow> Run" where
  "run s ops =
     foldl step \<lparr>run_world = Context_createScene s, run_gasPrepared = {}, run_iasPrepared = {}\<rparr> ops"

section \<open>Examples and notions of the specification\<close>

text \<open>
  The example of the specification: a scene with one GAS with two material sets, of one
  and two ray types, and one geometry instance with three materials.  The material
  carries four bytes of user data and has a hit group (at address 1) for the ray types
  0 and 1 of the pipeline at address 7.
\<close>

definition exampleMaterial :: Material where
  "exampleMaterial =
     \<lparr>mat_userDataSizeAlign = \<lparr>size_sa = 4, alignment = 4\<rparr>,
      mat_programs = [(7, 0) \<mapsto> 1, (7, 1) \<mapsto> 1]\<rparr>"

definition exampleIndexBuffer :: BufferView where
  "exampleIndexBuffer =
     \<lparr>getCUdeviceptr = 4096, numElements = 12, stride = 4, sizeInBytes = 48, isValid = True\<rparr>"

definition exampleWorld0 :: World where
  "exampleWorld0 =
     snd (GeometryInstance_setMaterial 0 0 2 (Some 0)
       (snd (GeometryInstance_setMaterial 0 0 1 (Some 0)
         (snd (GeometryInstance_setMaterial 0 0 0 (Some 0)
           (snd (GeometryInstance_setNumMaterials 0 3 exampleIndexBuffer 4
             (run_world (run 0
                [PutMaterial 0 exampleMaterial,
                 PutGeometryInstance 0 (GeometryInstance_Priv_new 0 False)])))))))))"

definition exampleOps :: "Op list" where
  "exampleOps =
     [CreateGAS 0 False OptixAccelBuildOptions_zero OptixAccelBufferSizes_zero 0,
      GasSetNumMaterialSets 0 2,
      GasSetNumRayTypes 0 0 1,
      GasSetNumRayTypes 0 1 2,
      GasAddChild 0 (Some 0) 0]"

definition exampleWorld :: World where
  "exampleWorld = snd (foldl (\<lambda>r op. apply_op op (snd r)) (None, exampleWorld0) exampleOps)"



text \<open>The number of material slots of a child of a GAS (0 for a dangling pointer).\<close>

definition numMaterialSlots :: "World \<Rightarrow> nat \<times> u64 \<Rightarrow> u32" where
  "numMaterialSlots w child =
     (case w_geomInsts w (fst child) of
        None \<Rightarrow> 0
      | Some gi \<Rightarrow> of_nat (length (gi_materials gi)))"

text \<open>
  A geometry instance has one build-input flag per material slot: both vectors are empty
  after construction and \<^verbatim>\<open>setNumMaterials\<close>, the only operation that resizes them,
  gives them the same length.
\<close>

definition GeometryInstance_consistent :: "GeometryInstance \<Rightarrow> bool" where
  "GeometryInstance_consistent gi = (length (gi_buildInputFlags gi) = length (gi_materials gi))"

definition childConsistent :: "World \<Rightarrow> nat \<times> u64 \<Rightarrow> bool" where
  "childConsistent w child =
     (case w_geomInsts w (fst child) of
        None \<Rightarrow> False
      | Some gi \<Rightarrow> GeometryInstance_consistent gi)"


subsection \<open>The layout in the words of the specification\<close>

text \<open>
  The (GAS, material-set index) pairs in the order in which both passes over the scene
  visit them: the GAS in the iteration order of the set, the indices ascending.
\<close>

definition pairsOf :: "World \<Rightarrow> nat \<Rightarrow> (nat \<times> u32) list" where
  "pairsOf w p = (case w_gass w p of None \<Rightarrow> [] | Some gas \<Rightarrow> map (Pair p) (matSetIndices gas))"

definition layoutPairs :: "World \<Rightarrow> (nat \<times> u32) list" where
  "layoutPairs w = concat (map (pairsOf w) (sc_geomASs (w_scene w)))"

text \<open>\<^verbatim>\<open>calcNumSBTRecords\<close> of a pair (0 where it does not return a value).\<close>

definition numRecordsAt :: "World \<Rightarrow> nat \<times> u32 \<Rightarrow> u32" where
  "numRecordsAt w k =
     (case w_gass w (fst k) of
        None \<Rightarrow> 0
      | Some gas \<Rightarrow> (case GAS_calcNumSBTRecords w gas (snd k) of Inl e \<Rightarrow> 0 | Inr n \<Rightarrow> n))"

text \<open>\<^verbatim>\<open>calcMaxRecordSizeAlign\<close> of a pair (the default where it does not return a value).\<close>

definition recordSizeAlignAt :: "World \<Rightarrow> nat \<times> u32 \<Rightarrow> SizeAlign" where
  "recordSizeAlignAt w k =
     (case w_gass w (fst k) of
        None \<Rightarrow> SizeAlign_default
      | Some gas \<Rightarrow>
         (case GAS_calcMaxRecordSizeAlign w gas (snd k) of
            Inl e \<Rightarrow> SizeAlign_default
          | Inr sa \<Rightarrow> sa))"

text \<open>
  The maximum \<^verbatim>\<open>SizeAlign\<close> of a GAS: the largest size and the largest alignment over
  its material sets, not below those of a default \<^verbatim>\<open>SizeAlign\<close>.
\<close>

definition gasMaxRecordSizeAlign :: "World \<Rightarrow> nat \<Rightarrow> SizeAlign" where
  "gasMaxRecordSizeAlign w p =
     \<lparr>size_sa = Max (insert 0 ((\<lambda>k. size_sa (recordSizeAlignAt w k)) ` set (pairsOf w p))),
      alignment = Max (insert 1 ((\<lambda>k. alignment (recordSizeAlignAt w k)) ` set (pairsOf w p)))\<rparr>"

text \<open>For each pair, the sum of the record counts of the pairs visited before it.\<close>

definition offsetsBefore :: "World \<Rightarrow> u32 list" where
  "offsetsBefore w =
     map (\<lambda>j. sum_list (map (numRecordsAt w) (take j (layoutPairs w))))
       [0 ..< length (layoutPairs w)]"

text \<open>The second loop of the layout, as one pass over a list of pairs (used in proofs).\<close>

fun assignOffsets ::
  "((nat \<times> u32) \<Rightarrow> u32) \<Rightarrow> (nat \<times> u32) list \<Rightarrow> ((nat \<times> u32) \<rightharpoonup> u32) \<times> u32
     \<Rightarrow> ((nat \<times> u32) \<rightharpoonup> u32) \<times> u32" where
  "assignOffsets nr [] acc = acc"
| "assignOffsets nr (k # ks) acc = assignOffsets nr ks ((fst acc)(k \<mapsto> snd acc), snd acc + nr k)"


definition exampleBuffer :: BufferView where
  "exampleBuffer =
     \<lparr>getCUdeviceptr = 8192, numElements = 1024, stride = 1, sizeInBytes = 1024, isValid = True\<rparr>"

text \<open>
  A scene with a GAS (at address 0) and an IAS (at address 1), both built, and an
  up-to-date layout.
\<close>

definition builtOps :: "Op list" where
  "builtOps =
     [CreateGAS 0 False OptixAccelBuildOptions_zero OptixAccelBufferSizes_zero 0,
      GasSetNumMaterialSets 0 1,
      GenerateShaderBindingTableLayout,
      GasPrepareForBuild 0 (Some OptixAccelBufferSizes_zero),
      GasRebuild 0 exampleBuffer exampleBuffer (Some 5) True,
      CreateIAS 1 OptixAccelBuildOptions_zero OptixAccelBufferSizes_zero 0 BuildInput_zero,
      IasPrepareForBuild 1 (Some OptixAccelBufferSizes_zero),
      IasRebuild 1 exampleBuffer exampleBuffer exampleBuffer True (Some 6) True]"

definition builtWorld :: World where
  "builtWorld = run_world (run 0 builtOps)"

definition IAS_isDirty :: "IAS \<Rightarrow> bool" where
  "IAS_isDirty i = (\<not> ias_readyToBuild i \<and> \<not> ias_available i \<and> \<not> ias_readyToCompact i
                    \<and> \<not> ias_compactedAvailable i)"

definition iasDirtyAt :: "World \<Rightarrow> nat \<Rightarrow> bool" where
  "iasDirtyAt w q = (case w_iass w q of None \<Rightarrow> False | Some i \<Rightarrow> IAS_isDirty i)"

text \<open>A scene with one transform (at address 0), configured as a static transform.\<close>

definition staticWorld :: World where
  "staticWorld =
     snd (Transform_setConfiguration 0 TransformType_Static 2
            (snd (Scene_createTransform 0 (Context_createScene 0))))"

definition zeroMatrix :: "float32 list" where
  "zeroMatrix = replicate 12 (Finite 0)"

definition identityMatrix :: "float32 list" where
  "identityMatrix =
     [Finite 1, Finite 0, Finite 0, Finite 0,
      Finite 0, Finite 1, Finite 0, Finite 0,
      Finite 0, Finite 0, Finite 1, Finite 0]"






section \<open>SizeAlign: offsets and alignment\<close>

lemma take_bit_and_not_mask: "take_bit k ((x::u32) AND NOT (mask k)) = 0"
  by (rule bit_eqI) (simp add: bit_simps)

lemma and_not_mask_dvd: "2 ^ k dvd unat ((x::u32) AND NOT (mask k))"
proof -
  have "unat (take_bit k (x AND NOT (mask k))) = take_bit k (unat (x AND NOT (mask k)))"
    by (rule unsigned_take_bit_eq)
  then have "take_bit k (unat (x AND NOT (mask k))) = 0"
    by (simp only: take_bit_and_not_mask unsigned_0)
  then show ?thesis by (simp only: take_bit_eq_0_iff)
qed

lemma round_up_dvd:
  assumes "(a::u32) = 2 ^ k" and "unat a = 2 ^ k"
  shows "unat a dvd unat ((x + (a - 1)) AND NOT (a - 1))"
proof -
  have "a - 1 = mask k" using assms(1) by (simp add: mask_eq_exp_minus_1)
  then show ?thesis using and_not_mask_dvd [of k "x + mask k"] assms(2) by simp
qed

lemma round_up_dvd_4_8_16:
  assumes "(a::u32) \<in> {4, 8, 16}"
  shows "unat a dvd unat ((x + (a - 1)) AND NOT (a - 1))"
proof -
  consider "a = 4" | "a = 8" | "a = 16" using assms by auto
  then show ?thesis
  proof cases
    case 1 then show ?thesis using round_up_dvd [of a 2 x] by simp
  next
    case 2 then show ?thesis using round_up_dvd [of a 3 x] by simp
  next
    case 3 then show ?thesis using round_up_dvd [of a 4 x] by simp
  qed
qed

lemma add_offset_aligned:
  "alignment sa \<in> {4, 8, 16} \<Longrightarrow> unat (alignment sa) dvd unat (snd (SizeAlign_add s sa))"
  using round_up_dvd_4_8_16 [of "alignment sa" "size_sa s"]
  by (simp add: SizeAlign_add_def Let_def)

lemma addAll_offsets_aligned:
  "list_all (\<lambda>it. alignment it \<in> {4, 8, 16}) items \<Longrightarrow>
   list_all2 (\<lambda>it off. unat (alignment it) dvd unat off) items (snd (addAll s items))"
proof (induction items arbitrary: s)
  case Nil
  then show ?case by simp
next
  case (Cons x xs)
  then show ?case
    using add_offset_aligned [of x s]
    by (simp add: split_beta Let_def)
qed

lemma addAll_alignment:
  "alignment (fst (addAll s items)) = Max (insert (alignment s) (alignment ` set items))"
proof (induction items arbitrary: s)
  case Nil
  then show ?case by simp
next
  case (Cons x xs)
  have "alignment (fst (addAll s (x # xs))) = alignment (fst (addAll (fst (SizeAlign_add s x)) xs))"
    by (simp add: split_beta Let_def)
  also have "\<dots> = Max (insert (max (alignment s) (alignment x)) (alignment ` set xs))"
    by (simp add: Cons.IH SizeAlign_add_def Let_def)
  also have "\<dots> = Max (insert (alignment s) (alignment ` set (x # xs)))"
  proof (cases "xs = []")
    case True then show ?thesis by simp
  next
    case False
    then show ?thesis by (simp add: max.assoc)
  qed
  finally show ?case .
qed

lemma addAll_default_alignment:
  assumes "list_all (\<lambda>it. alignment it \<in> {4, 8, 16}) items" and "items \<noteq> []"
  shows "alignment (fst (addAll SizeAlign_default items)) = Max (alignment ` set items)"
    and "Max (alignment ` set items) \<in> {4, 8, 16}"
proof -
  let ?S = "alignment ` set items"
  have fin: "finite ?S" and ne: "?S \<noteq> {}" using assms(2) by simp_all
  have mem: "Max ?S \<in> ?S" using fin ne by (rule Max_in)
  then obtain it where "it \<in> set items" "Max ?S = alignment it" by auto
  then show m: "Max ?S \<in> {4, 8, 16}" using assms(1) by (auto simp: list_all_iff)
  then have "1 \<le> Max ?S" by auto
  then have "Max (insert 1 ?S) = Max ?S" using fin ne by (simp add: max_def)
  then show "alignment (fst (addAll SizeAlign_default items)) = Max ?S"
    by (simp add: addAll_alignment SizeAlign_default_def)
qed

text \<open>
  Claim C8, as amended.  For every non-empty sequence of items with alignments drawn from
  4, 8 and 16, appended with \<^verbatim>\<open>add\<close> in any order: the offset returned for each
  item is a multiple of the alignment of that item, whatever the accumulator started
  from; and starting from a default \<^verbatim>\<open>SizeAlign\<close>, the accumulated alignment is the
  maximum alignment among the items and the size after \<^verbatim>\<open>alignUp\<close> is a multiple of
  it.  (The size before \<^verbatim>\<open>alignUp\<close> need not be one.)
\<close>

theorem SizeAlign_add_alignment:
  assumes "list_all (\<lambda>it. alignment it \<in> {4, 8, 16}) items" and "items \<noteq> []"
  shows "list_all2 (\<lambda>it off. unat (alignment it) dvd unat off) items (snd (addAll s items))
       \<and> alignment (fst (addAll SizeAlign_default items)) = Max (alignment ` set items)
       \<and> unat (Max (alignment ` set items))
           dvd unat (size_sa (SizeAlign_alignUp (fst (addAll SizeAlign_default items))))"
proof -
  let ?r = "fst (addAll SizeAlign_default items)"
  have a: "alignment ?r = Max (alignment ` set items)"
    and b: "Max (alignment ` set items) \<in> {4, 8, 16}"
    using addAll_default_alignment [OF assms] by simp_all
  have "unat (alignment ?r) dvd unat (size_sa (SizeAlign_alignUp ?r))"
    using round_up_dvd_4_8_16 [of "alignment ?r" "size_sa ?r"] a b
    by (simp add: SizeAlign_alignUp_def Let_def)
  then show ?thesis using a addAll_offsets_aligned [OF assms(1)] by simp
qed

text \<open>The theorem at the items (4, 4), (16, 16), (8, 8), in this order.\<close>

theorem SizeAlign_add_alignment_witness:
  "list_all2 (\<lambda>it off. unat (alignment it) dvd unat off)
     [\<lparr>size_sa = 4, alignment = 4\<rparr>, \<lparr>size_sa = 16, alignment = 16\<rparr>, \<lparr>size_sa = 8, alignment = 8\<rparr>]
     [0, 16, 32 :: u32]
   \<and> alignment (fst (addAll SizeAlign_default
        [\<lparr>size_sa = 4, alignment = 4\<rparr>, \<lparr>size_sa = 16, alignment = 16\<rparr>, \<lparr>size_sa = 8, alignment = 8\<rparr>])) = 16
   \<and> (16::nat) dvd unat (size_sa (SizeAlign_alignUp (fst (addAll SizeAlign_default
        [\<lparr>size_sa = 4, alignment = 4\<rparr>, \<lparr>size_sa = 16, alignment = 16\<rparr>, \<lparr>size_sa = 8, alignment = 8\<rparr>]))))"
  using SizeAlign_add_alignment [of
     "[\<lparr>size_sa = 4, alignment = 4\<rparr>, \<lparr>size_sa = 16, alignment = 16\<rparr>, \<lparr>size_sa = 8, alignment = 8\<rparr>]"
     SizeAlign_default]
  by (simp add: SizeAlign_add_def SizeAlign_default_def Let_def)

text \<open>
  Claim C8 as stated fails: after appending (16, 16) and then (4, 4) to a default
  \<^verbatim>\<open>SizeAlign\<close> the accumulated size is 20, which is not a multiple of the maximum
  alignment 16.
\<close>

theorem SizeAlign_add_final_size_counterexample:
  "list_all (\<lambda>it. alignment it \<in> {4, 8, 16}) [\<lparr>size_sa = 16, alignment = 16\<rparr>, \<lparr>size_sa = 4, alignment = 4\<rparr>]
   \<and> Max (alignment ` set [\<lparr>size_sa = 16, alignment = 16\<rparr>, \<lparr>size_sa = 4, alignment = 4\<rparr>]) = 16
   \<and> size_sa (fst (addAll SizeAlign_default
        [\<lparr>size_sa = 16, alignment = 16\<rparr>, \<lparr>size_sa = 4, alignment = 4\<rparr>])) = 20
   \<and> \<not> (16::nat) dvd unat (20::u32)"
  by (simp add: SizeAlign_add_def SizeAlign_default_def Let_def)

section \<open>Traversable handles\<close>

text \<open>
  Claim C10.  For a GAS and for an IAS, \<^verbatim>\<open>getHandle\<close> fails with a validation error
  unless \<^verbatim>\<open>available\<close> or \<^verbatim>\<open>compactedAvailable\<close> is set; whenever
  \<^verbatim>\<open>compactedAvailable\<close> is set it returns the compacted handle, also when the
  uncompacted structure is still available; it returns the uncompacted handle only when
  there is no compacted structure.
\<close>

theorem getHandle_compacted_first:
  "(\<not> (gas_available g \<or> gas_compactedAvailable g)
      \<longrightarrow> GAS_Priv_getHandle g = Inl (RuntimeError ''Traversable handle is not ready.''))
 \<and> (gas_compactedAvailable g \<longrightarrow> GAS_Priv_getHandle g = Inr (gas_compactedHandle g))
 \<and> (gas_available g \<and> \<not> gas_compactedAvailable g \<longrightarrow> GAS_Priv_getHandle g = Inr (gas_handle g))
 \<and> (\<not> (ias_available i \<or> ias_compactedAvailable i)
      \<longrightarrow> IAS_Priv_getHandle i = Inl (RuntimeError ''Traversable handle is not ready.''))
 \<and> (ias_compactedAvailable i \<longrightarrow> IAS_Priv_getHandle i = Inr (ias_compactedHandle i))
 \<and> (ias_available i \<and> \<not> ias_compactedAvailable i \<longrightarrow> IAS_Priv_getHandle i = Inr (ias_handle i))"
  by (simp add: GAS_Priv_getHandle_def GAS_Priv_isReady_def IAS_Priv_getHandle_def
        IAS_Priv_isReady_def)

text \<open>
  The theorem at a GAS and an IAS as constructed (not ready), with both structures
  available (handles 7 and 9), and with the uncompacted structure only.
\<close>

theorem getHandle_compacted_first_witness:
  "GAS_Priv_getHandle (GAS_Priv_new False OptixAccelBuildOptions_zero OptixAccelBufferSizes_zero 0)
      = Inl (RuntimeError ''Traversable handle is not ready.'')
 \<and> GAS_Priv_getHandle ((GAS_Priv_new False OptixAccelBuildOptions_zero OptixAccelBufferSizes_zero 0)
      \<lparr>gas_handle := 7, gas_compactedHandle := 9, gas_available := True,
       gas_compactedAvailable := True\<rparr>) = Inr 9
 \<and> GAS_Priv_getHandle ((GAS_Priv_new False OptixAccelBuildOptions_zero OptixAccelBufferSizes_zero 0)
      \<lparr>gas_handle := 7, gas_compactedHandle := 9, gas_available := True\<rparr>) = Inr 7
 \<and> IAS_Priv_getHandle (IAS_Priv_new OptixAccelBuildOptions_zero OptixAccelBufferSizes_zero 0 BuildInput_zero)
      = Inl (RuntimeError ''Traversable handle is not ready.'')
 \<and> IAS_Priv_getHandle ((IAS_Priv_new OptixAccelBuildOptions_zero OptixAccelBufferSizes_zero 0 BuildInput_zero)
      \<lparr>ias_handle := 7, ias_compactedHandle := 9, ias_available := True,
       ias_compactedAvailable := True\<rparr>) = Inr 9
 \<and> IAS_Priv_getHandle ((IAS_Priv_new OptixAccelBuildOptions_zero OptixAccelBufferSizes_zero 0 BuildInput_zero)
      \<lparr>ias_handle := 7, ias_compactedHandle := 9, ias_available := True\<rparr>) = Inr 7"
  using
    getHandle_compacted_first [of
      "GAS_Priv_new False OptixAccelBuildOptions_zero OptixAccelBufferSizes_zero 0"
      "IAS_Priv_new OptixAccelBuildOptions_zero OptixAccelBufferSizes_zero 0 BuildInput_zero"]
    getHandle_compacted_first [of
      "(GAS_Priv_new False OptixAccelBuildOptions_zero OptixAccelBufferSizes_zero 0)
         \<lparr>gas_handle := 7, gas_compactedHandle := 9, gas_available := True,
          gas_compactedAvailable := True\<rparr>"
      "(IAS_Priv_new OptixAccelBuildOptions_zero OptixAccelBufferSizes_zero 0 BuildInput_zero)
         \<lparr>ias_handle := 7, ias_compactedHandle := 9, ias_available := True,
          ias_compactedAvailable := True\<rparr>"]
    getHandle_compacted_first [of
      "(GAS_Priv_new False OptixAccelBuildOptions_zero OptixAccelBufferSizes_zero 0)
         \<lparr>gas_handle := 7, gas_compactedHandle := 9, gas_available := True\<rparr>"
      "(IAS_Priv_new OptixAccelBuildOptions_zero OptixAccelBufferSizes_zero 0 BuildInput_zero)
         \<lparr>ias_handle := 7, ias_compactedHandle := 9, ias_available := True\<rparr>"]
  by (simp add: GAS_Priv_new_def IAS_Priv_new_def)

section \<open>Record counts\<close>

lemma length_resize [simp]: "length (resize n v xs) = n"
  by (simp add: resize_def)

lemma GeometryInstance_Priv_new_consistent:
  "GeometryInstance_consistent (GeometryInstance_Priv_new s c)"
  by (simp add: GeometryInstance_consistent_def GeometryInstance_Priv_new_def)

lemma setNumMaterials_consistent:
  assumes "GeometryInstance_setNumMaterials p n b sz w = (Inr (), w')"
  shows "\<exists>gi. w_geomInsts w' p = Some gi \<and> GeometryInstance_consistent gi"
  using assms
  by (auto simp: GeometryInstance_setNumMaterials_def GeometryInstance_consistent_def Let_def
           split: option.splits if_splits)

lemma setMaterial_consistent:
  assumes "w_geomInsts w p = Some gi" "GeometryInstance_consistent gi"
    and "w_geomInsts (snd (GeometryInstance_setMaterial p ms mi mat w)) p = Some gi'"
  shows "GeometryInstance_consistent gi'"
  using assms
  by (auto simp: GeometryInstance_setMaterial_def GeometryInstance_consistent_def Let_def
           split: option.splits if_splits)

lemma GAS_numRecordsLoop_sum:
  "list_all (childConsistent w) children \<Longrightarrow>
   GAS_numRecordsLoop w children acc = Inr (acc + sum_list (map (numMaterialSlots w) children))"
proof (induction children arbitrary: acc)
  case Nil
  then show ?case by simp
next
  case (Cons c cs)
  then show ?case
    by (auto simp: childConsistent_def numMaterialSlots_def GeometryInstance_consistent_def
          GeometryInstance_getNumSBTRecords_def add.assoc split: option.splits)
qed

text \<open>
  Claim C6.  For a GAS whose children are geometry instances with one build-input flag
  per material slot, and a material-set index of the GAS, \<^verbatim>\<open>calcNumSBTRecords\<close>
  returns the sum of the numbers of material slots of the children, multiplied by the
  ray-type count of the material set (in 32-bit arithmetic).
\<close>

theorem calcNumSBTRecords_sum:
  assumes "list_all (childConsistent w) (gas_children m)"
    and "unat matSetIdx < length (gas_numRayTypesPerMaterialSet m)"
  shows "GAS_calcNumSBTRecords w m matSetIdx =
           Inr (sum_list (map (numMaterialSlots w) (gas_children m))
                  * gas_numRayTypesPerMaterialSet m ! unat matSetIdx)"
  using assms by (simp add: GAS_calcNumSBTRecords_def GAS_numRecordsLoop_sum)

text \<open>
  The example of the claim: one geometry instance with 3 materials, ray-type counts 1
  and 2 for the material sets 0 and 1, give 3 and 6 records.
\<close>

theorem calcNumSBTRecords_sum_witness:
  "GAS_calcNumSBTRecords exampleWorld (the (w_gass exampleWorld 0)) 0 = Inr 3
 \<and> GAS_calcNumSBTRecords exampleWorld (the (w_gass exampleWorld 0)) 1 = Inr 6"
proof -
  let ?m = "the (w_gass exampleWorld 0)"
  have c: "list_all (childConsistent exampleWorld) (gas_children ?m)" by code_simp
  have i0: "unat (0::u32) < length (gas_numRayTypesPerMaterialSet ?m)" by code_simp
  have i1: "unat (1::u32) < length (gas_numRayTypesPerMaterialSet ?m)" by code_simp
  have v0: "sum_list (map (numMaterialSlots exampleWorld) (gas_children ?m))
              * gas_numRayTypesPerMaterialSet ?m ! unat (0::u32) = 3" by code_simp
  have v1: "sum_list (map (numMaterialSlots exampleWorld) (gas_children ?m))
              * gas_numRayTypesPerMaterialSet ?m ! unat (1::u32) = 6" by code_simp
  show ?thesis
    using calcNumSBTRecords_sum [OF c i0] calcNumSBTRecords_sum [OF c i1] v0 v1
    by (simp only:)
qed


section \<open>The layout of the shader binding table\<close>


lemma Max_insert_max:
  "finite S \<Longrightarrow> Max (insert (max a b) S) = Max (insert a (insert b S))"
  by (cases "S = {}") (simp_all add: max.assoc)

lemma matSetMaxLoop_Inr:
  "matSetMaxLoop w gas idxs acc = Inr sa \<Longrightarrow>
   (\<forall>i\<in>set idxs. \<exists>s. GAS_calcMaxRecordSizeAlign w gas i = Inr s) \<and>
   sa = \<lparr>size_sa = Max (insert (size_sa acc)
            ((\<lambda>i. size_sa (case GAS_calcMaxRecordSizeAlign w gas i of Inl e \<Rightarrow> SizeAlign_default | Inr s \<Rightarrow> s)) ` set idxs)),
         alignment = Max (insert (alignment acc)
            ((\<lambda>i. alignment (case GAS_calcMaxRecordSizeAlign w gas i of Inl e \<Rightarrow> SizeAlign_default | Inr s \<Rightarrow> s)) ` set idxs))\<rparr>"
proof (induction idxs arbitrary: acc)
  case Nil
  then show ?case by simp
next
  case (Cons i idxs)
  from Cons.prems obtain s where
    s: "GAS_calcMaxRecordSizeAlign w gas i = Inr s"
    and r: "matSetMaxLoop w gas idxs (SizeAlign_max acc s) = Inr sa"
    by (auto split: sum.splits)
  from Cons.IH [OF r] s show ?case
    by (simp add: SizeAlign_max_def Max_insert_max insert_commute)
qed

lemma gasMax_eq:
  assumes "w_gass w p = Some gas"
    and "matSetMaxLoop w gas (matSetIndices gas) SizeAlign_default = Inr sa"
  shows "sa = gasMaxRecordSizeAlign w p"
  using matSetMaxLoop_Inr [OF assms(2)] assms(1)
  by (simp add: gasMaxRecordSizeAlign_def pairsOf_def recordSizeAlignAt_def image_image
        SizeAlign_default_def)

lemma recordSizeLoop_None:
  "recordSizeLoop w ps srs = (None, srs') \<Longrightarrow>
   srs' = Max (insert srs ((\<lambda>p. size_sa (SizeAlign_alignUp (gasMaxRecordSizeAlign w p))) ` set ps))"
proof (induction ps arbitrary: srs)
  case Nil
  then show ?case by simp
next
  case (Cons p ps)
  from Cons.prems obtain gas sa where
    g: "w_gass w p = Some gas"
    and m: "matSetMaxLoop w gas (matSetIndices gas) SizeAlign_default = Inr sa"
    and r: "recordSizeLoop w ps (max srs (size_sa (SizeAlign_alignUp sa))) = (None, srs')"
    by (auto split: option.splits sum.splits)
  from Cons.IH [OF r] gasMax_eq [OF g m] show ?case
    by (simp add: Max_insert_max)
qed

lemma offsetInnerLoop_None:
  "offsetInnerLoop w p gas idxs acc = (None, acc') \<Longrightarrow> w_gass w p = Some gas \<Longrightarrow>
   acc' = assignOffsets (numRecordsAt w) (map (Pair p) idxs) acc"
proof (induction idxs arbitrary: acc)
  case Nil
  then show ?case by simp
next
  case (Cons i idxs)
  from Cons.prems(1) obtain n where
    n: "GAS_calcNumSBTRecords w gas i = Inr n"
    and r: "offsetInnerLoop w p gas idxs ((fst acc)((p, i) \<mapsto> snd acc), snd acc + n) = (None, acc')"
    by (auto split: sum.splits)
  have "numRecordsAt w (p, i) = n" using n Cons.prems(2) by (simp add: numRecordsAt_def)
  with Cons.IH [OF r Cons.prems(2)] show ?case by simp
qed

lemma assignOffsets_append:
  "assignOffsets nr (xs @ ys) acc = assignOffsets nr ys (assignOffsets nr xs acc)"
  by (induction xs arbitrary: acc) simp_all

lemma offsetLoop_None:
  "offsetLoop w ps acc = (None, acc') \<Longrightarrow>
   acc' = assignOffsets (numRecordsAt w) (concat (map (pairsOf w) ps)) acc"
proof (induction ps arbitrary: acc)
  case Nil
  then show ?case by simp
next
  case (Cons p ps)
  from Cons.prems obtain gas acc1 where
    g: "w_gass w p = Some gas"
    and i: "offsetInnerLoop w p gas (matSetIndices gas) acc = (None, acc1)"
    and r: "offsetLoop w ps acc1 = (None, acc')"
    by (auto split: option.splits prod.splits)
  from offsetInnerLoop_None [OF i g] Cons.IH [OF r] g show ?case
    by (simp add: assignOffsets_append pairsOf_def)
qed

lemma assignOffsets_snd:
  "snd (assignOffsets nr ks acc) = snd acc + sum_list (map nr ks)"
  by (induction ks arbitrary: acc) (simp_all add: add.assoc)

lemma assignOffsets_other:
  "k \<notin> set ks \<Longrightarrow> fst (assignOffsets nr ks acc) k = fst acc k"
  by (induction ks arbitrary: acc) auto

lemma assignOffsets_dom:
  "dom (fst (assignOffsets nr ks acc)) = dom (fst acc) \<union> set ks"
  by (induction ks arbitrary: acc) auto

lemma assignOffsets_map:
  "distinct ks \<Longrightarrow>
   map (fst (assignOffsets nr ks acc)) ks =
   map (\<lambda>j. Some (snd acc + sum_list (map nr (take j ks)))) [0 ..< length ks]"
proof (induction ks arbitrary: acc)
  case Nil
  then show ?case by simp
next
  case (Cons k ks)
  let ?acc1 = "((fst acc)(k \<mapsto> snd acc), snd acc + nr k)"
  have d: "distinct ks" and nk: "k \<notin> set ks" using Cons.prems by simp_all
  have hd: "fst (assignOffsets nr ks ?acc1) k = Some (snd acc)"
    using assignOffsets_other [OF nk, of nr ?acc1] by simp
  have tl: "map (fst (assignOffsets nr ks ?acc1)) ks =
            map (\<lambda>j. Some (snd acc + nr k + sum_list (map nr (take j ks)))) [0 ..< length ks]"
    using Cons.IH [OF d, of ?acc1] by simp
  have "[0 ..< length (k # ks)] = 0 # map Suc [0 ..< length ks]"
    by (simp add: upt_conv_Cons map_Suc_upt del: upt_Suc)
  then have "map (\<lambda>j. Some (snd acc + sum_list (map nr (take j (k # ks))))) [0 ..< length (k # ks)]
           = Some (snd acc) # map (\<lambda>j. Some (snd acc + nr k + sum_list (map nr (take j ks)))) [0 ..< length ks]"
    by (simp add: comp_def add.assoc)
  with hd tl show ?case by simp
qed

lemma distinct_matSetIndices: "distinct (matSetIndices gas)"
proof -
  have "inj_on (of_nat :: nat \<Rightarrow> u32) {0 ..< unat (GAS_getNumMaterialSets gas)}"
  proof (rule inj_onI)
    fix x y :: nat
    assume x: "x \<in> {0 ..< unat (GAS_getNumMaterialSets gas)}"
      and y: "y \<in> {0 ..< unat (GAS_getNumMaterialSets gas)}"
      and e: "(of_nat x :: u32) = of_nat y"
    have "unat (of_nat x :: u32) = x" "unat (of_nat y :: u32) = y"
      using x y by (simp_all add: le_unat_uoi [of _ "GAS_getNumMaterialSets gas"])
    with e show "x = y" by metis
  qed
  then show ?thesis by (simp add: matSetIndices_def distinct_map)
qed

lemma set_pairsOf: "set (pairsOf w p) \<subseteq> {p} \<times> UNIV"
  by (auto simp: pairsOf_def split: option.splits)

lemma distinct_pairsOf: "distinct (pairsOf w p)"
  by (auto simp: pairsOf_def distinct_map distinct_matSetIndices inj_on_def split: option.splits)

lemma distinct_concat_pairsOf:
  "distinct ps \<Longrightarrow> distinct (concat (map (pairsOf w) ps))"
proof (induction ps)
  case Nil
  then show ?case by simp
next
  case (Cons p ps)
  have "set (pairsOf w p) \<inter> set (concat (map (pairsOf w) ps)) = {}"
  proof -
    have "p' \<in> set ps \<Longrightarrow> set (pairsOf w p) \<inter> set (pairsOf w p') = {}" for p'
      using set_pairsOf [of w p] set_pairsOf [of w p'] Cons.prems by auto
    then show ?thesis by auto
  qed
  with Cons show ?case by (simp add: distinct_pairsOf)
qed

lemma distinct_layoutPairs:
  "distinct (sc_geomASs (w_scene w)) \<Longrightarrow> distinct (layoutPairs w)"
  by (simp add: layoutPairs_def distinct_concat_pairsOf)


text \<open>
  Claim C1.  When the cached layout is dirty and \<^verbatim>\<open>generateShaderBindingTableLayout\<close>
  returns, (a) the record stride is the maximum over the owned GAS of the size of the
  maximum \<^verbatim>\<open>SizeAlign\<close> of the GAS over its material-set indices, aligned up to its
  own alignment, and is not less than the size of a record header; (b) the offset stored
  for each pair visited is the sum of \<^verbatim>\<open>calcNumSBTRecords\<close> of the pairs visited
  before it, and only the pairs visited have an offset; (c) the record count is the sum
  over all pairs; and the memory size returned is the stride times the maximum of the
  record count and 1 (a 32-bit product).  The layout is then up to date.
\<close>

theorem generateLayout_dirty:
  assumes "\<not> sc_sbtLayoutIsUpToDate (w_scene w)"
    and "distinct (sc_geomASs (w_scene w))"
    and "Scene_generateShaderBindingTableLayout w = (Inr memorySize, w')"
  shows "sc_singleRecordSize (w_scene w') =
           Max (insert OPTIX_SBT_RECORD_HEADER_SIZE
                  ((\<lambda>p. size_sa (SizeAlign_alignUp (gasMaxRecordSizeAlign w p)))
                     ` set (sc_geomASs (w_scene w))))
       \<and> OPTIX_SBT_RECORD_HEADER_SIZE \<le> sc_singleRecordSize (w_scene w')
       \<and> map (sc_sbtOffsets (w_scene w')) (layoutPairs w) = map Some (offsetsBefore w)
       \<and> dom (sc_sbtOffsets (w_scene w')) = set (layoutPairs w)
       \<and> sc_numSBTRecords (w_scene w') = sum_list (map (numRecordsAt w) (layoutPairs w))
       \<and> memorySize =
           ucast (sc_singleRecordSize (w_scene w') * max (sc_numSBTRecords (w_scene w')) 1)
       \<and> sc_sbtLayoutIsUpToDate (w_scene w')"
proof -
  let ?m = "w_scene w"
  let ?ps = "sc_geomASs ?m"
  obtain e1 srs where l1: "recordSizeLoop w ?ps OPTIX_SBT_RECORD_HEADER_SIZE = (e1, srs)"
    by (cases "recordSizeLoop w ?ps OPTIX_SBT_RECORD_HEADER_SIZE") auto
  obtain e2 offs n where l2: "offsetLoop w ?ps (Map.empty, 0) = (e2, offs, n)"
    by (cases "offsetLoop w ?ps (Map.empty, 0)") auto
  have e1: "e1 = None"
    using assms(1,3) l1
    by (auto simp: Scene_generateShaderBindingTableLayout_def Let_def split: option.splits)
  have e2: "e2 = None"
    using assms(1,3) l1 l2 e1
    by (auto simp: Scene_generateShaderBindingTableLayout_def Let_def split: option.splits)
  have w': "w' = w\<lparr>w_scene := ?m\<lparr>sc_sbtOffsets := offs, sc_singleRecordSize := srs,
                                   sc_numSBTRecords := n, sc_sbtLayoutIsUpToDate := True\<rparr>\<rparr>"
    and mem: "memorySize = ucast (srs * max n 1)"
    using assms(1,3) l1 l2 e1 e2
    by (auto simp: Scene_generateShaderBindingTableLayout_def Let_def)
  have srs: "srs = Max (insert OPTIX_SBT_RECORD_HEADER_SIZE
                  ((\<lambda>p. size_sa (SizeAlign_alignUp (gasMaxRecordSizeAlign w p))) ` set ?ps))"
    using recordSizeLoop_None l1 e1 by blast
  then have ge: "OPTIX_SBT_RECORD_HEADER_SIZE \<le> srs" by simp
  have acc: "(offs, n) = assignOffsets (numRecordsAt w) (layoutPairs w) (Map.empty, 0)"
    using offsetLoop_None l2 e2 unfolding layoutPairs_def by blast
  have n: "n = sum_list (map (numRecordsAt w) (layoutPairs w))"
    using assignOffsets_snd [of "numRecordsAt w" "layoutPairs w" "(Map.empty, 0)"] acc [symmetric]
    by simp
  have offs: "offs = fst (assignOffsets (numRecordsAt w) (layoutPairs w) (Map.empty, 0))"
    using acc [symmetric] by simp
  have d: "dom offs = set (layoutPairs w)"
    unfolding offs by (simp add: assignOffsets_dom)
  have m: "map offs (layoutPairs w) = map Some (offsetsBefore w)"
    unfolding offs
    using assignOffsets_map [OF distinct_layoutPairs [OF assms(2)], of "numRecordsAt w" "(Map.empty, 0)"]
    by (simp add: offsetsBefore_def comp_def)
  show ?thesis using srs ge n d m mem by (simp add: w')
qed

text \<open>
  The theorem at the example: the stride is 48, the offsets of the two material sets are
  0 and 3, there are 9 records and the memory size is 432.
\<close>

theorem generateLayout_dirty_witness:
  "sc_singleRecordSize (w_scene (snd (Scene_generateShaderBindingTableLayout exampleWorld))) = 48
 \<and> map (sc_sbtOffsets (w_scene (snd (Scene_generateShaderBindingTableLayout exampleWorld))))
      [(0, 0), (0, 1)] = [Some 0, Some 3]
 \<and> sc_numSBTRecords (w_scene (snd (Scene_generateShaderBindingTableLayout exampleWorld))) = 9
 \<and> fst (Scene_generateShaderBindingTableLayout exampleWorld) = Inr 432"
proof -
  let ?w' = "snd (Scene_generateShaderBindingTableLayout exampleWorld)"
  have h1: "\<not> sc_sbtLayoutIsUpToDate (w_scene exampleWorld)" by code_simp
  have h2: "distinct (sc_geomASs (w_scene exampleWorld))" by code_simp
  have f: "fst (Scene_generateShaderBindingTableLayout exampleWorld) = Inr 432" by code_simp
  then have h3: "Scene_generateShaderBindingTableLayout exampleWorld = (Inr 432, ?w')"
    by (simp add: prod_eq_iff)
  have v1: "Max (insert OPTIX_SBT_RECORD_HEADER_SIZE
                  ((\<lambda>p. size_sa (SizeAlign_alignUp (gasMaxRecordSizeAlign exampleWorld p)))
                     ` set (sc_geomASs (w_scene exampleWorld)))) = 48" by code_simp
  have v2: "layoutPairs exampleWorld = [(0, 0), (0, 1)]" by code_simp
  have v3: "map Some (offsetsBefore exampleWorld) = [Some 0, Some 3]" by code_simp
  have v4: "sum_list (map (numRecordsAt exampleWorld) (layoutPairs exampleWorld)) = 9" by code_simp
  show ?thesis
    using generateLayout_dirty [OF h1 h2 h3] v1 v2 v3 v4 f by simp
qed



text \<open>
  Claim C7.  After a call of \<^verbatim>\<open>generateShaderBindingTableLayout\<close> that returned, a
  second call in a state whose layout flag, stride and record count are still those the
  first call left returns the same memory size and changes nothing: it does not compute
  again, and the stride, the record count and the offset map stay as they are.
\<close>

theorem generateLayout_idempotent:
  assumes "Scene_generateShaderBindingTableLayout w = (Inr memorySize, w1)"
    and "sc_sbtLayoutIsUpToDate (w_scene w2) = sc_sbtLayoutIsUpToDate (w_scene w1)"
    and "sc_singleRecordSize (w_scene w2) = sc_singleRecordSize (w_scene w1)"
    and "sc_numSBTRecords (w_scene w2) = sc_numSBTRecords (w_scene w1)"
  shows "Scene_generateShaderBindingTableLayout w2 = (Inr memorySize, w2)"
proof -
  have "sc_sbtLayoutIsUpToDate (w_scene w1)
      \<and> memorySize = ucast (sc_singleRecordSize (w_scene w1) * max (sc_numSBTRecords (w_scene w1)) 1)"
    using assms(1)
    by (auto simp: Scene_generateShaderBindingTableLayout_def Let_def split_beta
             split: if_splits option.splits)
  then show ?thesis using assms(2-4)
    by (simp add: Scene_generateShaderBindingTableLayout_def Let_def)
qed

text \<open>The theorem at the example, the second call directly after the first.\<close>

theorem generateLayout_idempotent_witness:
  "fst (Scene_generateShaderBindingTableLayout
          (snd (Scene_generateShaderBindingTableLayout exampleWorld))) = Inr 432
 \<and> snd (Scene_generateShaderBindingTableLayout
          (snd (Scene_generateShaderBindingTableLayout exampleWorld)))
     = snd (Scene_generateShaderBindingTableLayout exampleWorld)"
proof -
  let ?w1 = "snd (Scene_generateShaderBindingTableLayout exampleWorld)"
  have f: "fst (Scene_generateShaderBindingTableLayout exampleWorld) = Inr 432" by code_simp
  then have h: "Scene_generateShaderBindingTableLayout exampleWorld = (Inr 432, ?w1)"
    by (simp add: prod_eq_iff)
  show ?thesis
    using generateLayout_idempotent [OF h refl refl refl] by simp
qed

section \<open>Marking dirty\<close>


lemma IAS_Priv_markDirty_idem [simp]:
  "IAS_Priv_markDirty (IAS_Priv_markDirty i) = IAS_Priv_markDirty i"
  by (simp add: IAS_Priv_markDirty_def)

lemma IAS_Priv_markDirty_dirty: "IAS_isDirty (IAS_Priv_markDirty i)"
  by (simp add: IAS_isDirty_def IAS_Priv_markDirty_def)

lemma markDirtyLoop_Some:
  "markDirtyLoop qs iass = (e, iass') \<Longrightarrow> iass q = Some i \<Longrightarrow>
   iass' q = Some i \<or> iass' q = Some (IAS_Priv_markDirty i)"
proof (induction qs arbitrary: iass i)
  case Nil
  then show ?case by simp
next
  case (Cons a qs)
  show ?case
  proof (cases "iass a")
    case None
    with Cons.prems show ?thesis by simp
  next
    case (Some j)
    with Cons.prems(1)
    have r: "markDirtyLoop qs (iass(a \<mapsto> IAS_Priv_markDirty j)) = (e, iass')" by simp
    show ?thesis
    proof (cases "a = q")
      case True
      then have "(iass(a \<mapsto> IAS_Priv_markDirty j)) q = Some (IAS_Priv_markDirty i)"
        using Some Cons.prems(2) by simp
      from Cons.IH [OF r this] show ?thesis by simp
    next
      case False
      then have "(iass(a \<mapsto> IAS_Priv_markDirty j)) q = Some i"
        using Cons.prems(2) by simp
      from Cons.IH [OF r this] show ?thesis .
    qed
  qed
qed

lemma markDirtyLoop_None_eq:
  "markDirtyLoop qs iass = (e, iass') \<Longrightarrow> iass q = None \<Longrightarrow> iass' q = None"
proof (induction qs arbitrary: iass)
  case Nil
  then show ?case by simp
next
  case (Cons a qs)
  show ?case
  proof (cases "iass a")
    case None
    with Cons.prems show ?thesis by simp
  next
    case (Some j)
    with Cons.prems(1)
    have r: "markDirtyLoop qs (iass(a \<mapsto> IAS_Priv_markDirty j)) = (e, iass')" by simp
    have "a \<noteq> q" using Some Cons.prems(2) by auto
    then have "(iass(a \<mapsto> IAS_Priv_markDirty j)) q = None" using Cons.prems(2) by simp
    from Cons.IH [OF r this] show ?thesis .
  qed
qed

lemma markDirtyLoop_dirty:
  "markDirtyLoop qs iass = (None, iass') \<Longrightarrow> q \<in> set qs \<Longrightarrow>
   \<exists>i. iass' q = Some i \<and> IAS_isDirty i"
proof (induction qs arbitrary: iass)
  case Nil
  then show ?case by simp
next
  case (Cons a qs)
  from Cons.prems(1) obtain j where j: "iass a = Some j"
    and r: "markDirtyLoop qs (iass(a \<mapsto> IAS_Priv_markDirty j)) = (None, iass')"
    by (auto split: option.splits)
  show ?case
  proof (cases "q \<in> set qs")
    case True
    from Cons.IH [OF r True] show ?thesis .
  next
    case False
    then have "q = a" using Cons.prems(2) by simp
    then have "(iass(a \<mapsto> IAS_Priv_markDirty j)) q = Some (IAS_Priv_markDirty j)" by simp
    from markDirtyLoop_Some [OF r this] show ?thesis
      by (auto simp: IAS_Priv_markDirty_dirty)
  qed
qed

lemma Scene_markSBTLayoutDirty_None:
  assumes "Scene_markSBTLayoutDirty w = (None, w')"
  shows "\<not> sc_sbtLayoutIsUpToDate (w_scene w')"
    and "list_all (iasDirtyAt w') (sc_instASs (w_scene w'))"
    and "w_gass w' = w_gass w"
    and "sc_instASs (w_scene w') = sc_instASs (w_scene w)"
proof -
  obtain iass where l: "markDirtyLoop (sc_instASs (w_scene w)) (w_iass w) = (None, iass)"
    and w': "w' = w\<lparr>w_scene := (w_scene w)\<lparr>sc_sbtLayoutIsUpToDate := False\<rparr>, w_iass := iass\<rparr>"
    using assms
    by (auto simp: Scene_markSBTLayoutDirty_def Let_def split: prod.splits)
  show "\<not> sc_sbtLayoutIsUpToDate (w_scene w')" "w_gass w' = w_gass w"
    "sc_instASs (w_scene w') = sc_instASs (w_scene w)"
    by (simp_all add: w')
  have "\<forall>q\<in>set (sc_instASs (w_scene w)). \<exists>i. iass q = Some i \<and> IAS_isDirty i"
    using markDirtyLoop_dirty [OF l] by blast
  then show "list_all (iasDirtyAt w') (sc_instASs (w_scene w'))"
    by (auto simp: list_all_iff iasDirtyAt_def w')
qed

text \<open>
  Claim C5, as amended.  When \<^verbatim>\<open>setNumRayTypes\<close> returns, the GAS is as before but
  for the ray-type count it stored (its build state is not touched), the layout of the
  scene is dirty and every IAS of the scene is dirty.  When \<^verbatim>\<open>markDirty\<close> of the
  GAS returns, the four flags of the GAS are false as well.
\<close>

theorem setNumRayTypes_marks_layout_dirty:
  "(GAS_setNumRayTypes p matSetIdx numRayTypes w = (Inr (), w') \<and> w_gass w p = Some m \<longrightarrow>
      w_gass w' p = Some (m\<lparr>gas_numRayTypesPerMaterialSet :=
                              (gas_numRayTypesPerMaterialSet m)[unat matSetIdx := numRayTypes]\<rparr>)
    \<and> \<not> sc_sbtLayoutIsUpToDate (w_scene w')
    \<and> list_all (iasDirtyAt w') (sc_instASs (w_scene w')))
 \<and> (GAS_markDirty p w = (Inr (), w') \<and> w_gass w p = Some m \<longrightarrow>
      w_gass w' p = Some (m\<lparr>gas_readyToBuild := False, gas_available := False,
                             gas_readyToCompact := False, gas_compactedAvailable := False\<rparr>)
    \<and> \<not> sc_sbtLayoutIsUpToDate (w_scene w')
    \<and> list_all (iasDirtyAt w') (sc_instASs (w_scene w')))"
proof (intro conjI impI)
  assume a: "GAS_setNumRayTypes p matSetIdx numRayTypes w = (Inr (), w') \<and> w_gass w p = Some m"
  let ?m' = "m\<lparr>gas_numRayTypesPerMaterialSet :=
                 (gas_numRayTypesPerMaterialSet m)[unat matSetIdx := numRayTypes]\<rparr>"
  from a have d: "Scene_markSBTLayoutDirty (w\<lparr>w_gass := (w_gass w)(p \<mapsto> ?m')\<rparr>) = (None, w')"
    by (auto simp: GAS_setNumRayTypes_def throwing_def Let_def prod_eq_iff
             split: if_splits option.splits)
  show "w_gass w' p = Some ?m'"
    "\<not> sc_sbtLayoutIsUpToDate (w_scene w')"
    "list_all (iasDirtyAt w') (sc_instASs (w_scene w'))"
    using Scene_markSBTLayoutDirty_None [OF d] by simp_all
next
  assume a: "GAS_markDirty p w = (Inr (), w') \<and> w_gass w p = Some m"
  let ?m' = "m\<lparr>gas_readyToBuild := False, gas_available := False,
                gas_readyToCompact := False, gas_compactedAvailable := False\<rparr>"
  from a have d: "Scene_markSBTLayoutDirty (w\<lparr>w_gass := (w_gass w)(p \<mapsto> ?m')\<rparr>) = (None, w')"
    by (auto simp: GAS_markDirty_def GAS_Priv_markDirty_def throwing_def Let_def prod_eq_iff
             split: if_splits option.splits)
  show "w_gass w' p = Some ?m'"
    "\<not> sc_sbtLayoutIsUpToDate (w_scene w')"
    "list_all (iasDirtyAt w') (sc_instASs (w_scene w'))"
    using Scene_markSBTLayoutDirty_None [OF d] by simp_all
qed


text \<open>
  The theorem at the scene with a built GAS (address 0) and a built IAS (address 1).
\<close>

theorem setNumRayTypes_marks_layout_dirty_witness:
  "map_option gas_available (w_gass (snd (GAS_setNumRayTypes 0 0 1 builtWorld)) 0) = Some True
 \<and> map_option gas_numRayTypesPerMaterialSet
      (w_gass (snd (GAS_setNumRayTypes 0 0 1 builtWorld)) 0) = Some [1]
 \<and> \<not> sc_sbtLayoutIsUpToDate (w_scene (snd (GAS_setNumRayTypes 0 0 1 builtWorld)))
 \<and> list_all (iasDirtyAt (snd (GAS_setNumRayTypes 0 0 1 builtWorld))) [1]
 \<and> map_option gas_available (w_gass (snd (GAS_markDirty 0 builtWorld)) 0) = Some False
 \<and> \<not> sc_sbtLayoutIsUpToDate (w_scene (snd (GAS_markDirty 0 builtWorld)))
 \<and> list_all (iasDirtyAt (snd (GAS_markDirty 0 builtWorld))) [1]"
proof -
  let ?m = "the (w_gass builtWorld 0)"
  let ?w1 = "snd (GAS_setNumRayTypes 0 0 1 builtWorld)"
  let ?w2 = "snd (GAS_markDirty 0 builtWorld)"
  have "w_gass builtWorld 0 \<noteq> None" by code_simp
  then have m: "w_gass builtWorld 0 = Some ?m" by simp
  have "fst (GAS_setNumRayTypes 0 0 1 builtWorld) = Inr ()" by code_simp
  then have a1: "GAS_setNumRayTypes 0 0 1 builtWorld = (Inr (), ?w1) \<and> w_gass builtWorld 0 = Some ?m"
    using m by (simp add: prod_eq_iff)
  have "fst (GAS_markDirty 0 builtWorld) = Inr ()" by code_simp
  then have a2: "GAS_markDirty 0 builtWorld = (Inr (), ?w2) \<and> w_gass builtWorld 0 = Some ?m"
    using m by (simp add: prod_eq_iff)
  have v1: "gas_available ?m" by code_simp
  have v2: "(gas_numRayTypesPerMaterialSet ?m)[unat (0::u32) := 1] = [1]" by code_simp
  have v3: "sc_instASs (w_scene ?w1) = [1]" by code_simp
  have v4: "sc_instASs (w_scene ?w2) = [1]" by code_simp
  show ?thesis
    using setNumRayTypes_marks_layout_dirty
            [of 0 0 1 builtWorld ?w1 ?m, THEN conjunct1, rule_format, OF a1]
          setNumRayTypes_marks_layout_dirty
            [of 0 0 1 builtWorld ?w2 ?m, THEN conjunct2, rule_format, OF a2]
          v1 v2 v3 v4
    by simp
qed

text \<open>
  Claim C5 as stated fails: in that scene the GAS is available before
  \<^verbatim>\<open>setNumRayTypes(0, 1)\<close>, the call returns normally, and the GAS is still
  available after it.
\<close>

theorem setNumRayTypes_keeps_GAS_available_counterexample:
  "map_option gas_available (w_gass builtWorld 0) = Some True
 \<and> fst (GAS_setNumRayTypes 0 0 1 builtWorld) = Inr ()
 \<and> map_option gas_available (w_gass (snd (GAS_setNumRayTypes 0 0 1 builtWorld)) 0) = Some True"
  by code_simp


section \<open>Static transforms\<close>

lemma staticWorld_transform:
  "w_transforms staticWorld 0 =
     Some (Transform_Priv_new\<lparr>tr_type := TransformType_Static,
             tr_data := Data_static \<lparr>st_child = 0, st_transform = initialMatrix,
                                     st_invTransform = initialMatrix\<rparr>\<rparr>)"
  by (simp add: staticWorld_def Transform_setConfiguration_def Scene_createTransform_def
        Context_createScene_def Transform_Priv_new_def Transform_Priv_markDirty_def Let_def)

text \<open>
  Claim C9 on the code: for the all-zeros matrix, whose determinant is zero,
  \<^verbatim>\<open>setStaticTransform\<close> does not fail.  The reciprocal of the determinant is
  infinite, hence different from zero, the check passes, and the call stores the matrix
  and an inverse made of NaN.
\<close>

theorem setStaticTransform_zero_matrix:
  "fst (Transform_setStaticTransform 0 zeroMatrix staticWorld) = Inr ()
 \<and> map_option tr_data (w_transforms (snd (Transform_setStaticTransform 0 zeroMatrix staticWorld)) 0)
     = Some (Data_static
         \<lparr>st_child = 0, st_transform = zeroMatrix,
          st_invTransform = [NaN, NaN, NaN, Finite 0, NaN, NaN, NaN, Finite 0,
                             NaN, NaN, NaN, Finite 0]\<rparr>)"
  by (simp add: Transform_setStaticTransform_def staticWorld_transform zeroMatrix_def
        Transform_Priv_new_def Transform_Priv_markDirty_def fl_sub_def Let_def
        numeral_eq_Suc)

text \<open>For the identity matrix the call stores the identity as the inverse.\<close>

lemma setStaticTransform_identity:
  "fst (Transform_setStaticTransform 0 identityMatrix staticWorld) = Inr ()
 \<and> map_option tr_data (w_transforms (snd (Transform_setStaticTransform 0 identityMatrix staticWorld)) 0)
     = Some (Data_static
         \<lparr>st_child = 0, st_transform = identityMatrix, st_invTransform = identityMatrix\<rparr>)"
  by (simp add: Transform_setStaticTransform_def staticWorld_transform identityMatrix_def
        Transform_Priv_new_def Transform_Priv_markDirty_def fl_sub_def Let_def
        numeral_eq_Suc)


section \<open>Validation failures and the state\<close>

lemma markDirtyLoop_no_validation: "fst (markDirtyLoop qs iass) \<noteq> Some (RuntimeError msg)"
  by (induction qs arbitrary: iass) (auto split: option.splits)

lemma Scene_markSBTLayoutDirty_no_validation:
  "fst (Scene_markSBTLayoutDirty w) \<noteq> Some (RuntimeError msg)"
  using markDirtyLoop_no_validation
  by (simp add: Scene_markSBTLayoutDirty_def Let_def split_beta)

lemma GAS_Priv_markDirty_no_validation:
  "fst (GAS_Priv_markDirty p w) \<noteq> Some (RuntimeError msg)"
  using Scene_markSBTLayoutDirty_no_validation
  by (simp add: GAS_Priv_markDirty_def split: option.splits)

lemma throwing_no_validation:
  "fst r \<noteq> Some (RuntimeError msg) \<Longrightarrow> fst (throwing r) \<noteq> Inl (RuntimeError msg)"
  by (auto simp: throwing_def split: option.splits)

lemma no_validation [simp]:
  "throwing (GAS_Priv_markDirty p w) \<noteq> (Inl (RuntimeError msg), w')"
  "throwing (Scene_markSBTLayoutDirty w) \<noteq> (Inl (RuntimeError msg), w')"
  using throwing_no_validation [OF GAS_Priv_markDirty_no_validation, of p w msg]
        throwing_no_validation [OF Scene_markSBTLayoutDirty_no_validation, of w msg]
  by auto
































end
